theory Spec2Isabelle
  imports Main
begin

section \<open>Python values\<close>

text \<open>
  The scraping API answers with JSON, and the client passes the decoded values around as
  Python objects. A decoded value is one of the six JSON shapes. A dict is an association
  list in insertion order, looked up by its first matching key. Numbers are integers: no
  function below computes with a number, only its truth value (non-zero) and, in the
  summary of the competitor workflow, its size are read.

  A Python string is the list of the bytes of its UTF-8 encoding: a character below 128 is
  one byte, any other character two to four bytes, a lead byte and continuation bytes. No
  encoding of a character is the end or the middle of another's, so looking for an ASCII
  separator and cutting at it are the same on the bytes as on the characters.
\<close>

datatype json =
    JNull
  | JBool bool
  | JNum int
  | JStr string
  | JList "json list"
  | JDict "(string \<times> json) list"

text \<open>The exceptions the modelled code can raise.\<close>

datatype error =
    TransportFailure
  | TypeError
  | AttributeError
  | KeyError
  | OverflowError

text \<open>Python's truth value of an object: \<open>if x\<close>, \<open>not x\<close>, \<open>x or y\<close>, \<open>x and y\<close>.\<close>

fun truthy :: "json \<Rightarrow> bool" where
  "truthy JNull = False"
| "truthy (JBool b) = b"
| "truthy (JNum n) = (n \<noteq> 0)"
| "truthy (JStr s) = (s \<noteq> [])"
| "truthy (JList xs) = (xs \<noteq> [])"
| "truthy (JDict kvs) = (kvs \<noteq> [])"

definition py_or :: "json \<Rightarrow> json \<Rightarrow> json" where
  "py_or a b = (if truthy a then a else b)"

text \<open>\<open>d.get(k)\<close> is \<open>None\<close> for a missing key; \<open>d.get(k, default)\<close> is the default.\<close>

definition dict_get :: "(string \<times> json) list \<Rightarrow> string \<Rightarrow> json" where
  "dict_get kvs k = (case map_of kvs k of Some v \<Rightarrow> v | None \<Rightarrow> JNull)"

definition dict_get_default :: "(string \<times> json) list \<Rightarrow> string \<Rightarrow> json \<Rightarrow> json" where
  "dict_get_default kvs k d = (case map_of kvs k of Some v \<Rightarrow> v | None \<Rightarrow> d)"

text \<open>\<open>d[k] = v\<close>: the value of an existing key is replaced in place, a new key goes last.\<close>

fun dict_set :: "(string \<times> json) list \<Rightarrow> string \<Rightarrow> json \<Rightarrow> (string \<times> json) list" where
  "dict_set [] k v = [(k, v)]"
| "dict_set ((k', v') # kvs) k v =
     (if k' = k then (k, v) # kvs else (k', v') # dict_set kvs k v)"

text \<open>
  The characters of a string: the lead byte says how many bytes the character has.
\<close>

definition utf8_len :: "char \<Rightarrow> nat" where
  "utf8_len c =
     (let n = of_char c :: nat
      in if n < 192 then 1 else if n < 224 then 2 else if n < 240 then 3 else 4)"

fun utf8_chars :: "string \<Rightarrow> string list" where
  "utf8_chars [] = []"
| "utf8_chars (c # cs) =
     (c # take (utf8_len c - 1) cs) # utf8_chars (drop (utf8_len c - 1) cs)"

text \<open>
  Iterating over a value (\<open>for x in v\<close>, \<open>list.extend(v)\<close>): a list gives its elements, a
  string its characters, a dict its keys; anything else is not iterable.
\<close>

fun py_iter :: "json \<Rightarrow> error + json list" where
  "py_iter (JList xs) = Inr xs"
| "py_iter (JStr s) = Inr (map JStr (utf8_chars s))"
| "py_iter (JDict kvs) = Inr (map (\<lambda>kv. JStr (fst kv)) kvs)"
| "py_iter _ = Inl TypeError"

text \<open>
  Equality of hashable values, as a Python set decides it: \<open>True == 1\<close> and
  \<open>False == 0\<close>; otherwise values of different shapes differ.
\<close>

fun py_eq :: "json \<Rightarrow> json \<Rightarrow> bool" where
  "py_eq (JBool b) (JNum n) = (n = (if b then 1 else 0))"
| "py_eq (JNum n) (JBool b) = (n = (if b then 1 else 0))"
| "py_eq a b = (a = b)"

fun hashable :: "json \<Rightarrow> bool" where
  "hashable (JList _) = False"
| "hashable (JDict _) = False"
| "hashable _ = True"

section \<open>Python string operations\<close>

text \<open>
  The whitespace that \<open>str.strip()\<close> removes, by the bytes of its encoding: the characters
  9 to 13, 28 to 31 and the space in one byte; U+0085 and U+00A0 in two bytes; and in three
  bytes U+1680, U+2000 to U+200A, U+2028, U+2029, U+202F, U+205F and U+3000.
\<close>

definition space1 :: "char \<Rightarrow> bool" where
  "space1 a = (let n = of_char a :: nat in (9 \<le> n \<and> n \<le> 13) \<or> (28 \<le> n \<and> n \<le> 32))"

definition space2 :: "char \<Rightarrow> char \<Rightarrow> bool" where
  "space2 a b = (a = CHR 0xC2 \<and> (b = CHR 0x85 \<or> b = CHR 0xA0))"

definition space3 :: "char \<Rightarrow> char \<Rightarrow> char \<Rightarrow> bool" where
  "space3 a b c =
     (let n = of_char c :: nat
      in (a = CHR 0xE1 \<and> b = CHR 0x9A \<and> n = 128)
         \<or> (a = CHR 0xE2 \<and> b = CHR 0x80
              \<and> ((128 \<le> n \<and> n \<le> 138) \<or> n = 168 \<or> n = 169 \<or> n = 175))
         \<or> (a = CHR 0xE2 \<and> b = CHR 0x81 \<and> n = 159)
         \<or> (a = CHR 0xE3 \<and> b = CHR 0x80 \<and> n = 128))"

text \<open>\<open>s.lstrip()\<close>: whitespace characters are removed from the front, one at a time.\<close>

fun lstrip :: "string \<Rightarrow> string" where
  "lstrip (a # b # c # s) =
     (if space1 a then lstrip (b # c # s)
      else if space2 a b then lstrip (c # s)
      else if space3 a b c then lstrip s
      else a # b # c # s)"
| "lstrip [a, b] = (if space1 a then lstrip [b] else if space2 a b then [] else [a, b])"
| "lstrip [a] = (if space1 a then [] else [a])"
| "lstrip [] = []"

text \<open>
  \<open>s.rstrip()\<close>, on the reversed string: the last bytes of the string come first, so the
  bytes of a whitespace character are met from its last to its lead byte. A lead byte is
  no continuation byte, so the bytes tested are one whole character.
\<close>

fun rstrip_rev :: "string \<Rightarrow> string" where
  "rstrip_rev (c # b # a # s) =
     (if space1 c then rstrip_rev (b # a # s)
      else if space2 b c then rstrip_rev (a # s)
      else if space3 a b c then rstrip_rev s
      else c # b # a # s)"
| "rstrip_rev [c, b] = (if space1 c then rstrip_rev [b] else if space2 b c then [] else [c, b])"
| "rstrip_rev [c] = (if space1 c then [] else [c])"
| "rstrip_rev [] = []"

definition py_strip :: "string \<Rightarrow> string" where
  "py_strip s = rev (rstrip_rev (rev (lstrip s)))"

definition starts_with :: "string \<Rightarrow> string \<Rightarrow> bool" where
  "starts_with sep s = (take (length sep) s = sep)"

text \<open>\<open>sep in s\<close> for strings: \<open>sep\<close> occurs somewhere in \<open>s\<close>.\<close>

fun str_contains :: "string \<Rightarrow> string \<Rightarrow> bool" where
  "str_contains sep [] = (sep = [])"
| "str_contains sep (c # cs) = (starts_with sep (c # cs) \<or> str_contains sep cs)"

text \<open>\<open>s.split(sep)[0]\<close> for a non-empty \<open>sep\<close>: what stands before its leftmost occurrence.\<close>

fun split_first :: "string \<Rightarrow> string \<Rightarrow> string" where
  "split_first sep [] = []"
| "split_first sep (c # cs) =
     (if starts_with sep (c # cs) then [] else c # split_first sep cs)"

text \<open>\<open>sep.join(xs)\<close>.\<close>

fun py_join :: "string \<Rightarrow> string list \<Rightarrow> string" where
  "py_join sep [] = []"
| "py_join sep [x] = x"
| "py_join sep (x # y # ys) = x @ sep @ py_join sep (y # ys)"

section \<open>The scraping client (oxylabs\_client.py)\<close>

subsection \<open>Unwrapping the response envelope\<close>

text \<open>
  \<open>results_first_content\<close> is the guard of the first branch of \<open>_extract_content\<close>:
  \<open>"results"\<close> is a key, its value a non-empty list, the first element a dict with the key
  \<open>"content"\<close>. It gives that content.
\<close>

definition results_first_content :: "(string \<times> json) list \<Rightarrow> json option" where
  "results_first_content kvs =
     (case map_of kvs ''results'' of
        Some (JList (JDict first # rest)) \<Rightarrow> map_of first ''content''
      | _ \<Rightarrow> None)"

definition extract_content :: "json \<Rightarrow> json" where
  "extract_content payload =
     (case payload of
        JDict kvs \<Rightarrow>
          (case results_first_content kvs of
             Some c \<Rightarrow> py_or c (JDict [])
           | None \<Rightarrow>
               (case map_of kvs ''content'' of
                  Some c \<Rightarrow> py_or c (JDict [])
                | None \<Rightarrow> payload))
      | _ \<Rightarrow> payload)"

subsection \<open>Cleaning a title for the search query\<close>

definition clean_search_title :: "string \<Rightarrow> string" where
  "clean_search_title title =
     (let title1 = (if str_contains '' - '' title then split_first '' - '' title else title);
          title2 = (if str_contains ''|'' title1 then split_first ''|'' title1 else title1)
      in py_strip title2)"

subsection \<open>Normalising a product\<close>

type_synonym pydict = "(string \<times> json) list"

text \<open>
  \<open>[cat.strip() for cat in xs if cat]\<close>: falsy elements are dropped; \<open>strip\<close> exists on
  strings only, so a truthy element of another shape raises.
\<close>

fun strip_truthy :: "json list \<Rightarrow> error + json list" where
  "strip_truthy [] = Inr []"
| "strip_truthy (x # xs) =
     (if truthy x then
        (case x of
           JStr s \<Rightarrow>
             (case strip_truthy xs of
                Inl e \<Rightarrow> Inl e
              | Inr ys \<Rightarrow> Inr (JStr (py_strip s) # ys))
         | _ \<Rightarrow> Inl AttributeError)
      else strip_truthy xs)"

definition category_path_of :: "pydict \<Rightarrow> error + json list" where
  "category_path_of content =
     (if truthy (dict_get content ''category_path'') then
        (case py_iter (dict_get content ''category_path'') of
           Inl e \<Rightarrow> Inl e
         | Inr xs \<Rightarrow> strip_truthy xs)
      else Inr [])"

text \<open>\<open>content.get\<close> exists on a dict only.\<close>

definition normalize_product :: "json \<Rightarrow> error + pydict" where
  "normalize_product content =
     (case content of
        JDict kvs \<Rightarrow>
          (case category_path_of kvs of
             Inl e \<Rightarrow> Inl e
           | Inr category_path \<Rightarrow>
               Inr [(''asin'', dict_get kvs ''asin''),
                    (''url'', dict_get kvs ''url''),
                    (''brand'', dict_get kvs ''brand''),
                    (''price'', dict_get kvs ''price''),
                    (''stock'', dict_get kvs ''stock''),
                    (''title'', dict_get kvs ''title''),
                    (''rating'', dict_get kvs ''rating''),
                    (''images'', dict_get_default kvs ''images'' (JList [])),
                    (''categories'',
                       py_or (dict_get_default kvs ''category'' (JList []))
                             (dict_get_default kvs ''categories'' (JList []))),
                    (''category_path'', JList category_path),
                    (''currency'', dict_get kvs ''currency''),
                    (''buybox'', dict_get_default kvs ''buybox'' (JList [])),
                    (''product_overview'', dict_get_default kvs ''product_overview'' (JList []))])
      | _ \<Rightarrow> Inl AttributeError)"

subsection \<open>The world the client acts on\<close>

text \<open>
  What the program does to its surroundings is a list of events, oldest first: a query
  submitted to the scraping API, a pause (in milliseconds), a read of the product store, an
  insert into it, a call of the language model. The store's documents are part of the
  state. Writes to the dashboard change neither a value nor an event studied here and are
  left out.

  The scraping API is a parameter: its answer to a query may depend on the query and on
  everything that happened before, and it is either the decoded JSON body or a raised
  failure (no connection, a non-success status, a body that is not JSON).
\<close>

datatype event =
    Posted json
  | Slept nat
  | StoreRead
  | StoreInsert pydict
  | LlmInvoked json

record world =
  events :: "event list"
  store :: "pydict list"

type_synonym network = "event list \<Rightarrow> json \<Rightarrow> error + json"

definition emit :: "event \<Rightarrow> world \<Rightarrow> world" where
  "emit e w = w\<lparr>events := events w @ [e]\<rparr>"

text \<open>\<open>time.sleep(0.3)\<close>.\<close>

definition pause :: "world \<Rightarrow> world" where
  "pause w = emit (Slept 300) w"

definition post_query :: "network \<Rightarrow> json \<Rightarrow> world \<Rightarrow> (error + json) \<times> world" where
  "post_query net payload w = (net (events w) payload, emit (Posted payload) w)"

subsection \<open>Scraping one product\<close>

definition product_payload :: "json \<Rightarrow> json \<Rightarrow> json \<Rightarrow> json" where
  "product_payload a geo_location domain =
     JDict [(''source'', JStr ''amazon_product''),
            (''query'', a),
            (''geo_location'', geo_location),
            (''parse'', JBool True),
            (''domain'', domain)]"

definition scrape_product_details ::
  "network \<Rightarrow> json \<Rightarrow> json \<Rightarrow> json \<Rightarrow> world \<Rightarrow> (error + pydict) \<times> world" where
  "scrape_product_details net a geo_location domain w =
     (case post_query net (product_payload a geo_location domain) w of
        (Inl e, w1) \<Rightarrow> (Inl e, w1)
      | (Inr raw, w1) \<Rightarrow>
          (case normalize_product (extract_content raw) of
             Inl e \<Rightarrow> (Inl e, w1)
           | Inr normalized \<Rightarrow>
               (let n1 = (if \<not> truthy (dict_get normalized ''asin'')
                          then dict_set normalized ''asin'' a else normalized);
                    n2 = dict_set n1 ''amazon_domain'' domain;
                    n3 = dict_set n2 ''geo_location'' geo_location
                in (Inr n3, w1))))"

subsection \<open>Searching for competitors\<close>

definition extend_from :: "pydict \<Rightarrow> string \<Rightarrow> json list \<Rightarrow> error + json list" where
  "extend_from results k items =
     (case map_of results k of
        None \<Rightarrow> Inr items
      | Some v \<Rightarrow> (case py_iter v of Inl e \<Rightarrow> Inl e | Inr xs \<Rightarrow> Inr (items @ xs)))"

definition extract_search_results :: "json \<Rightarrow> error + json list" where
  "extract_search_results content =
     (case content of
        JDict kvs \<Rightarrow>
          (case map_of kvs ''results'' of
             Some results \<Rightarrow>
               (case results of
                  JDict rkvs \<Rightarrow>
                    (case extend_from rkvs ''organic'' [] of
                       Inl e \<Rightarrow> Inl e
                     | Inr items \<Rightarrow> extend_from rkvs ''paid'' items)
                | _ \<Rightarrow> Inr [])
           | None \<Rightarrow>
               (case map_of kvs ''products'' of
                  Some (JList ps) \<Rightarrow> Inr ps
                | _ \<Rightarrow> Inr []))
      | _ \<Rightarrow> Inr [])"

definition normalize_search_result :: "json \<Rightarrow> error + pydict option" where
  "normalize_search_result item =
     (case item of
        JDict kvs \<Rightarrow>
          (let a = py_or (dict_get kvs ''asin'') (dict_get kvs ''product_asin'');
               t = dict_get kvs ''title''
           in if \<not> (truthy a \<and> truthy t) then Inr None
              else Inr (Some [(''asin'', a),
                              (''title'', t),
                              (''category'', dict_get kvs ''category''),
                              (''price'', dict_get kvs ''price''),
                              (''rating'', dict_get kvs ''rating'')]))
      | _ \<Rightarrow> Inl AttributeError)"

text \<open>
  The loop over the items of one page. \<open>seen\<close> is the set \<open>seen_asins\<close>, held as the list
  of the values added to it; looking a value up in a set hashes it, which raises on a list
  or a dict.
\<close>

fun process_items ::
  "json list \<Rightarrow> pydict list \<times> json list \<Rightarrow> error + (pydict list \<times> json list)" where
  "process_items [] acc = Inr acc"
| "process_items (item # items) (results, seen) =
     (case normalize_search_result item of
        Inl e \<Rightarrow> Inl e
      | Inr None \<Rightarrow> process_items items (results, seen)
      | Inr (Some r) \<Rightarrow>
          (let a = dict_get r ''asin''
           in if \<not> hashable a then Inl TypeError
              else if list_ex (py_eq a) seen then process_items items (results, seen)
              else process_items items (results @ [r], seen @ [a])))"

definition refinements :: "string list option \<Rightarrow> pydict" where
  "refinements categories =
     (case categories of
        Some (c # cs) \<Rightarrow>
          (if c \<noteq> [] then [(''refinements'', JDict [(''category'', JStr c)])] else [])
      | _ \<Rightarrow> [])"

definition search_payload ::
  "string \<Rightarrow> json \<Rightarrow> string list option \<Rightarrow> json \<Rightarrow> string \<Rightarrow> int \<Rightarrow> json" where
  "search_payload search_title domain categories geo_location sort_by page =
     JDict ([(''source'', JStr ''amazon_search''),
             (''query'', JStr search_title),
             (''parse'', JBool True),
             (''domain'', domain),
             (''page'', JNum page),
             (''sort_by'', JStr sort_by),
             (''geo_location'', geo_location)] @ refinements categories)"

text \<open>The inner loop, over the pages of one sort order.\<close>

fun pages_loop ::
  "network \<Rightarrow> string \<Rightarrow> json \<Rightarrow> string list option \<Rightarrow> json \<Rightarrow> string \<Rightarrow> int list \<Rightarrow>
   pydict list \<times> json list \<Rightarrow> world \<Rightarrow> (error + (pydict list \<times> json list)) \<times> world" where
  "pages_loop net search_title domain categories geo_location sort_by [] acc w = (Inr acc, w)"
| "pages_loop net search_title domain categories geo_location sort_by (page # rest) acc w =
     (case post_query net
             (search_payload search_title domain categories geo_location sort_by page) w of
        (Inl e, w1) \<Rightarrow> (Inl e, w1)
      | (Inr raw, w1) \<Rightarrow>
          (case extract_search_results (extract_content raw) of
             Inl e \<Rightarrow> (Inl e, w1)
           | Inr items \<Rightarrow>
               (case process_items items acc of
                  Inl e \<Rightarrow> (Inl e, w1)
                | Inr acc1 \<Rightarrow>
                    pages_loop net search_title domain categories geo_location sort_by rest
                      acc1 (pause w1))))"

text \<open>The outer loop, over the sort orders.\<close>

fun strategies_loop ::
  "network \<Rightarrow> string \<Rightarrow> json \<Rightarrow> string list option \<Rightarrow> json \<Rightarrow> int \<Rightarrow> string list \<Rightarrow>
   pydict list \<times> json list \<Rightarrow> world \<Rightarrow> (error + (pydict list \<times> json list)) \<times> world" where
  "strategies_loop net search_title domain categories geo_location pages [] acc w = (Inr acc, w)"
| "strategies_loop net search_title domain categories geo_location pages (sort_by # rest) acc w =
     (case pages_loop net search_title domain categories geo_location sort_by
             [1 .. max 1 pages] acc w of
        (Inl e, w1) \<Rightarrow> (Inl e, w1)
      | (Inr acc1, w1) \<Rightarrow>
          strategies_loop net search_title domain categories geo_location pages rest acc1 w1)"

definition strategies :: "string list" where
  "strategies = [''featured'', ''price_asc'', ''price_desc'', ''avg_rating'']"

text \<open>
  \<open>_clean_search_title\<close> on whatever the caller passes as the title: \<open>" - " in title\<close>
  raises on a value that is no container, and a list or a dict has no \<open>strip\<close>.
\<close>

definition clean_title_of :: "json \<Rightarrow> error + string" where
  "clean_title_of query_title =
     (case query_title of
        JStr t \<Rightarrow> Inr (clean_search_title t)
      | JList _ \<Rightarrow> Inl AttributeError
      | JDict _ \<Rightarrow> Inl AttributeError
      | _ \<Rightarrow> Inl TypeError)"

definition search_competitors ::
  "network \<Rightarrow> json \<Rightarrow> json \<Rightarrow> string list option \<Rightarrow> int \<Rightarrow> json \<Rightarrow> world \<Rightarrow>
   (error + pydict list) \<times> world" where
  "search_competitors net query_title domain categories pages geo_location w =
     (case clean_title_of query_title of
        Inl e \<Rightarrow> (Inl e, w)
      | Inr search_title \<Rightarrow>
          (case strategies_loop net search_title domain categories geo_location pages
                  strategies ([], []) w of
             (Inl e, w1) \<Rightarrow> (Inl e, w1)
           | (Inr (results, seen), w1) \<Rightarrow> (Inr results, w1)))"

subsection \<open>Scraping a batch of products\<close>

text \<open>
  The body of the loop is a \<open>try\<close>: a failure of the fetch is caught and the loop goes on
  with \<open>continue\<close>, which leaves the rest of the body, the pause included, undone.
\<close>

fun scrape_loop ::
  "network \<Rightarrow> json \<Rightarrow> json \<Rightarrow> json list \<Rightarrow> pydict list \<Rightarrow> world \<Rightarrow> pydict list \<times> world" where
  "scrape_loop net geo_location domain [] products w = (products, w)"
| "scrape_loop net geo_location domain (a # rest) products w =
     (case scrape_product_details net a geo_location domain w of
        (Inr product, w1) \<Rightarrow>
          scrape_loop net geo_location domain rest (products @ [product]) (pause w1)
      | (Inl e, w1) \<Rightarrow> scrape_loop net geo_location domain rest products w1)"

definition scrape_multiple_products ::
  "network \<Rightarrow> json list \<Rightarrow> json \<Rightarrow> json \<Rightarrow> world \<Rightarrow> pydict list \<times> world" where
  "scrape_multiple_products net asins geo_location domain w =
     scrape_loop net geo_location domain asins [] w"

section \<open>The product store (db.py)\<close>

text \<open>
  Modelled from the spec: the module \<open>db.py\<close> with the class \<open>Database\<close> is missing.
  The spec's product store keeps documents in insertion order. "Get product" gives the
  single record whose \<open>asin\<close> equals the argument, or nothing. "Insert product" gives back
  the record it was handed and, the spec leaving open whether a second insert for an
  \<open>asin\<close> replaces the first, adds a document here; the event \<open>StoreInsert\<close> records
  what was handed over either way. "Search products" gives all records whose fields equal
  the filter's, here always the one field \<open>parent_asin\<close>.
\<close>

definition get_product :: "string \<Rightarrow> world \<Rightarrow> pydict option \<times> world" where
  "get_product a w =
     (find (\<lambda>r. map_of r ''asin'' = Some (JStr a)) (store w), emit StoreRead w)"

definition insert_product :: "pydict \<Rightarrow> world \<Rightarrow> pydict \<times> world" where
  "insert_product r w = (r, emit (StoreInsert r) (w\<lparr>store := store w @ [r]\<rparr>))"

definition search_products_parent :: "string \<Rightarrow> world \<Rightarrow> pydict list \<times> world" where
  "search_products_parent a w =
     (filter (\<lambda>r. map_of r ''parent_asin'' = Some (JStr a)) (store w), emit StoreRead w)"

section \<open>The orchestration service (services.py)\<close>

text \<open>
  Two things the service takes from Python are parameters of the model. \<open>str_of\<close> is
  \<open>str(x)\<close> on a value that is not a string (on a string, \<open>str\<close> is the identity).
  \<open>list(set(xs))\<close> lists the distinct elements of \<open>xs\<close> in the order the interpreter's
  hash table gives: \<open>cat_order\<close> does so for the category names and \<open>asin_order\<close> for the
  candidate ASINs.
\<close>

definition py_str :: "(json \<Rightarrow> string) \<Rightarrow> json \<Rightarrow> string" where
  "py_str str_of v = (case v of JStr s \<Rightarrow> s | _ \<Rightarrow> str_of v)"

text \<open>
  \<open>if parent.get(k): search_categories.extend(str(cat) for cat in parent[k] if cat)\<close>
\<close>

definition categories_from ::
  "(json \<Rightarrow> string) \<Rightarrow> pydict \<Rightarrow> string \<Rightarrow> string list \<Rightarrow> error + string list" where
  "categories_from str_of parent k search_categories =
     (if truthy (dict_get parent k) then
        (case py_iter (dict_get parent k) of
           Inl e \<Rightarrow> Inl e
         | Inr cats \<Rightarrow> Inr (search_categories @ map (py_str str_of) (filter truthy cats)))
      else Inr search_categories)"

definition candidate_categories ::
  "(json \<Rightarrow> string) \<Rightarrow> (string list \<Rightarrow> string list) \<Rightarrow> pydict \<Rightarrow> error + string list" where
  "candidate_categories str_of cat_order parent =
     (case categories_from str_of parent ''categories'' [] of
        Inl e \<Rightarrow> Inl e
      | Inr c1 \<Rightarrow>
          (case categories_from str_of parent ''category_path'' c1 of
             Inl e \<Rightarrow> Inl e
           | Inr c2 \<Rightarrow>
               Inr (cat_order (map py_strip (filter (\<lambda>c. c \<noteq> [] \<and> py_strip c \<noteq> []) c2)))))"

text \<open>
  The loop over the categories searched. \<open>parent["title"]\<close> is read in each round and
  raises when the record has no title; a failure of a search leaves the loop and the
  operation.
\<close>

fun category_loop ::
  "network \<Rightarrow> pydict \<Rightarrow> json \<Rightarrow> json \<Rightarrow> int \<Rightarrow> string list \<Rightarrow> pydict list \<Rightarrow> world \<Rightarrow>
   (error + pydict list) \<times> world" where
  "category_loop net parent search_domain search_geo pages [] all_results w =
     (Inr all_results, w)"
| "category_loop net parent search_domain search_geo pages (category # rest) all_results w =
     (case map_of parent ''title'' of
        None \<Rightarrow> (Inl KeyError, w)
      | Some t \<Rightarrow>
          (case search_competitors net t search_domain (Some [category]) pages search_geo w of
             (Inl e, w1) \<Rightarrow> (Inl e, w1)
           | (Inr search_results, w1) \<Rightarrow>
               category_loop net parent search_domain search_geo pages rest
                 (all_results @ search_results) w1))"

text \<open>The candidate ASINs: the hits' ASINs that are truthy and not the parent's.\<close>

definition competitor_asins ::
  "(json list \<Rightarrow> json list) \<Rightarrow> string \<Rightarrow> pydict list \<Rightarrow> json list" where
  "competitor_asins asin_order parent_asin all_results =
     asin_order
       (filter (\<lambda>a. truthy a \<and> \<not> py_eq a (JStr parent_asin))
          (map (\<lambda>r. dict_get r ''asin'') all_results))"

fun store_competitors ::
  "string \<Rightarrow> pydict list \<Rightarrow> pydict list \<Rightarrow> world \<Rightarrow> pydict list \<times> world" where
  "store_competitors parent_asin [] stored w = (stored, w)"
| "store_competitors parent_asin (competitor # rest) stored w =
     (let competitor1 = dict_set competitor ''parent_asin'' (JStr parent_asin);
          (r, w1) = insert_product competitor1 w
      in store_competitors parent_asin rest (stored @ [competitor1]) w1)"

text \<open>
  The summary shown after the inserts. A price that is a number is printed with two
  decimals, \<open>f"{price:,.2f}"\<close>, which turns an \<open>int\<close> into a \<open>float\<close> and raises when the
  \<open>int\<close> is too large for one: from \<open>2 ^ 1024 - 2 ^ 970\<close> on, the first integer that rounds
  beyond the largest float. Nothing else in the loop can raise.
\<close>

definition float_overflow :: "int \<Rightarrow> bool" where
  "float_overflow n = (2 ^ 1024 - 2 ^ 970 \<le> \<bar>n\<bar>)"

fun display_summary :: "pydict list \<Rightarrow> error + unit" where
  "display_summary [] = Inr ()"
| "display_summary (competitor # rest) =
     (case dict_get_default competitor ''price'' (JStr ''N/A'') of
        JNum n \<Rightarrow> (if float_overflow n then Inl OverflowError else display_summary rest)
      | _ \<Rightarrow> display_summary rest)"

definition fetch_and_store_competitors ::
  "(json \<Rightarrow> string) \<Rightarrow> (string list \<Rightarrow> string list) \<Rightarrow> (json list \<Rightarrow> json list) \<Rightarrow>
   network \<Rightarrow> string \<Rightarrow> json \<Rightarrow> json \<Rightarrow> int \<Rightarrow> world \<Rightarrow> (error + pydict list) \<times> world" where
  "fetch_and_store_competitors str_of cat_order asin_order net parent_asin domain geo_location
     pages w =
     (case get_product parent_asin w of
        (None, w1) \<Rightarrow> (Inr [], w1)
      | (Some parent, w1) \<Rightarrow>
          (if parent = [] then (Inr [], w1)
           else
             (let search_domain = dict_get_default parent ''amazon_domain'' domain;
                  search_geo = dict_get_default parent ''geo_location'' geo_location
              in case candidate_categories str_of cat_order parent of
                   Inl e \<Rightarrow> (Inl e, w1)
                 | Inr search_categories \<Rightarrow>
                     (case category_loop net parent search_domain search_geo pages
                             (take 3 search_categories) [] w1 of
                        (Inl e, w2) \<Rightarrow> (Inl e, w2)
                      | (Inr all_results, w2) \<Rightarrow>
                          (let asins = competitor_asins asin_order parent_asin all_results;
                               (product_details, w3) =
                                 scrape_multiple_products net (take 20 asins)
                                   search_geo search_domain w2;
                               (stored_competitors, w4) =
                                 store_competitors parent_asin product_details [] w3
                           in case display_summary stored_competitors of
                                Inl e \<Rightarrow> (Inl e, w4)
                              | Inr u \<Rightarrow> (Inr stored_competitors, w4))))))"

section \<open>The analysis engine (llm.py)\<close>

text \<open>
  The two schema classes. A Python float is a value of the type parameter \<open>'f\<close>; the
  engine reads two things of a float, its text (\<open>float_str\<close>, what an f-string prints) and
  its truth value (\<open>float_nonzero\<close>), and both are parameters of the model.
\<close>

record 'f competitor_insight =
  asin :: string
  title :: "string option"
  price :: "'f option"
  currency :: "string option"
  rating :: "'f option"
  key_points :: "string list"

record 'f analysis_output =
  summary :: string
  positioning :: string
  top_competitors :: "'f competitor_insight list"
  recommendations :: "string list"

text \<open>
  The language model with its prompt and its parser is a parameter: from what happened
  before and the variables handed to \<open>chain.invoke\<close> it gives a parsed answer or raises.
\<close>

type_synonym 'f chain = "event list \<Rightarrow> json \<Rightarrow> error + 'f analysis_output"

definition format_competitor :: "pydict \<Rightarrow> error + json" where
  "format_competitor c =
     (case (map_of c ''asin'', map_of c ''title'', map_of c ''price'', map_of c ''rating'') of
        (Some a, Some t, Some p, Some r) \<Rightarrow>
          Inr (JDict [(''asin'', a),
                      (''title'', t),
                      (''price'', p),
                      (''currency'', dict_get c ''currency''),
                      (''rating'', r),
                      (''amazon_domain'', dict_get c ''amazon_domain'')])
      | _ \<Rightarrow> Inl KeyError)"

fun format_all :: "pydict list \<Rightarrow> error + json list" where
  "format_all [] = Inr []"
| "format_all (c # cs) =
     (case format_competitor c of
        Inl e \<Rightarrow> Inl e
      | Inr d \<Rightarrow> (case format_all cs of Inl e \<Rightarrow> Inl e | Inr ds \<Rightarrow> Inr (d # ds)))"

definition format_competitors :: "string \<Rightarrow> world \<Rightarrow> (error + json list) \<times> world" where
  "format_competitors parent_asin w =
     (case search_products_parent parent_asin w of (comps, w1) \<Rightarrow> (format_all comps, w1))"

text \<open>The variables of the prompt; \<open>product["title"]\<close> raises on a record without a title.\<close>

definition invoke_args :: "pydict option \<Rightarrow> string \<Rightarrow> json list \<Rightarrow> error + json" where
  "invoke_args product parent_asin competitors =
     (case product of
        Some (kv # kvs) \<Rightarrow>
          (let p = kv # kvs
           in case map_of p ''title'' of
                None \<Rightarrow> Inl KeyError
              | Some t \<Rightarrow>
                  Inr (JDict [(''product_title'', t),
                              (''brand'', dict_get p ''brand''),
                              (''price'', dict_get p ''price''),
                              (''currency'', dict_get p ''currency''),
                              (''rating'', dict_get p ''rating''),
                              (''categories'', dict_get p ''categories''),
                              (''amazon_domain'', dict_get p ''amazon_domain''),
                              (''competitors'', JList competitors)]))
      | _ \<Rightarrow>
          Inr (JDict [(''product_title'', JStr parent_asin),
                      (''brand'', JNull),
                      (''price'', JNull),
                      (''currency'', JStr []),
                      (''rating'', JNull),
                      (''categories'', JNull),
                      (''amazon_domain'', JStr ''com''),
                      (''competitors'', JList competitors)]))"

text \<open>
  The literal that stands before the rating in a competitor's line: three characters
  outside ASCII in the source file, here the eight bytes of their UTF-8 encoding.
\<close>

definition rating_marker :: string where
  "rating_marker =
     [CHR 0xE2, CHR 0x80, CHR 0x9A, CHR 0xE2, CHR 0x89, CHR 0xA0, CHR 0xC3, CHR 0xAA]"

text \<open>What an f-string prints for an optional value: \<open>None\<close> when it is absent.\<close>

definition opt_text :: "('a \<Rightarrow> string) \<Rightarrow> 'a option \<Rightarrow> string" where
  "opt_text f v = (case v of None \<Rightarrow> ''None'' | Some x \<Rightarrow> f x)"

definition opt_truthy :: "('a \<Rightarrow> bool) \<Rightarrow> 'a option \<Rightarrow> bool" where
  "opt_truthy f v = (case v of None \<Rightarrow> False | Some x \<Rightarrow> f x)"

definition price_str ::
  "('f \<Rightarrow> string) \<Rightarrow> ('f \<Rightarrow> bool) \<Rightarrow> 'f competitor_insight \<Rightarrow> string" where
  "price_str float_str float_nonzero c =
     (let cur = (case currency c of Some s \<Rightarrow> (if s \<noteq> [] then s else []) | None \<Rightarrow> [])
      in if cur \<noteq> [] \<and> opt_truthy float_nonzero (price c)
           then cur @ '' '' @ opt_text float_str (price c)
         else if opt_truthy float_nonzero (price c)
           then ''$'' @ opt_text float_str (price c)
         else ''N/A'')"

definition competitor_line ::
  "('f \<Rightarrow> string) \<Rightarrow> ('f \<Rightarrow> bool) \<Rightarrow> 'f competitor_insight \<Rightarrow> string" where
  "competitor_line float_str float_nonzero c =
     (let pts = (if key_points c \<noteq> [] then py_join ''; '' (key_points c) else [])
      in ''- '' @ asin c @ '' | '' @ opt_text id (title c) @ '' | ''
           @ price_str float_str float_nonzero c @ '' | '' @ rating_marker @ '' ''
           @ opt_text float_str (rating c) @ '' '' @ pts)"

definition report_lines ::
  "('f \<Rightarrow> string) \<Rightarrow> ('f \<Rightarrow> bool) \<Rightarrow> 'f analysis_output \<Rightarrow> string list" where
  "report_lines float_str float_nonzero result =
     [''Summary:'' @ [CHR 0x0A] @ summary result,
      [CHR 0x0A] @ ''Positioning:'' @ [CHR 0x0A] @ positioning result,
      [CHR 0x0A] @ ''Top Competitors:'']
     @ map (competitor_line float_str float_nonzero) (take 5 (top_competitors result))
     @ (if recommendations result \<noteq> []
        then ([CHR 0x0A] @ ''Recommendations:'') # map (\<lambda>r. ''- '' @ r) (recommendations result)
        else [])"

definition render_report ::
  "('f \<Rightarrow> string) \<Rightarrow> ('f \<Rightarrow> bool) \<Rightarrow> 'f analysis_output \<Rightarrow> string" where
  "render_report float_str float_nonzero result =
     py_join [CHR 0x0A] (report_lines float_str float_nonzero result)"

text \<open>\<open>env_key\<close> is the value of \<open>OPENAI_API_KEY\<close> in the environment, if it is set.\<close>

definition analyze_competition ::
  "('f \<Rightarrow> string) \<Rightarrow> ('f \<Rightarrow> bool) \<Rightarrow> 'f chain \<Rightarrow> string option \<Rightarrow> string \<Rightarrow> world \<Rightarrow>
   (error + string) \<times> world" where
  "analyze_competition float_str float_nonzero llm env_key parent_asin w =
     (let api_key = py_strip (case env_key of None \<Rightarrow> [] | Some v \<Rightarrow> v)
      in if api_key = [] then (Inr ''Set OPENAI_API_KEY to run LLM analysis.'', w)
         else
           (case get_product parent_asin w of
              (product, w1) \<Rightarrow>
                (case format_competitors parent_asin w1 of
                   (Inl e, w2) \<Rightarrow> (Inl e, w2)
                 | (Inr competitors, w2) \<Rightarrow>
                     (case invoke_args product parent_asin competitors of
                        Inl e \<Rightarrow> (Inl e, w2)
                      | Inr args \<Rightarrow>
                          (case llm (events w2) args of
                             Inl e \<Rightarrow> (Inl e, emit (LlmInvoked args) w2)
                           | Inr result \<Rightarrow>
                               (Inr (render_report float_str float_nonzero result),
                                emit (LlmInvoked args) w2))))))"

section \<open>The operations as the specification words them\<close>

text \<open>
  "Clean search title": the title truncated at the first occurrence of \<open>" - "\<close> if
  present, else at the first occurrence of \<open>"|"\<close> if present, then trimmed.
\<close>

definition spec_clean_search_title :: "string \<Rightarrow> string" where
  "spec_clean_search_title t =
     py_strip (if str_contains '' - '' t then split_first '' - '' t
               else if str_contains ''|'' t then split_first ''|'' t
               else t)"

text \<open>
  A competitor's line of the report: \<open>"- {asin} | {title} | {price_str} | rating {rating}
  {key_points joined by '; '}"\<close>, where the price text is \<open>"{currency} {price}"\<close> when both
  currency and price are present, else \<open>"${price}"\<close> when only the price is present, else
  \<open>"N/A"\<close>.
\<close>

definition spec_price_str :: "('f \<Rightarrow> string) \<Rightarrow> 'f competitor_insight \<Rightarrow> string" where
  "spec_price_str float_str c =
     (case (currency c, price c) of
        (Some cur, Some p) \<Rightarrow> cur @ '' '' @ float_str p
      | (None, Some p) \<Rightarrow> ''$'' @ float_str p
      | _ \<Rightarrow> ''N/A'')"

definition spec_competitor_line_marked ::
  "string \<Rightarrow> ('f \<Rightarrow> string) \<Rightarrow> 'f competitor_insight \<Rightarrow> string" where
  "spec_competitor_line_marked marker float_str c =
     ''- '' @ asin c @ '' | '' @ opt_text id (title c) @ '' | '' @ spec_price_str float_str c
       @ '' | '' @ marker @ '' '' @ opt_text float_str (rating c) @ '' ''
       @ py_join ''; '' (key_points c)"

definition spec_competitor_line :: "('f \<Rightarrow> string) \<Rightarrow> 'f competitor_insight \<Rightarrow> string" where
  "spec_competitor_line float_str c = spec_competitor_line_marked ''rating'' float_str c"

section \<open>Observations\<close>

text \<open>Cutting a title at the first place where either separator starts.\<close>

fun truncate_at_separator :: "string \<Rightarrow> string" where
  "truncate_at_separator [] = []"
| "truncate_at_separator (c # cs) =
     (if starts_with '' - '' (c # cs) \<or> c = CHR ''|'' then []
      else c # truncate_at_separator cs)"

text \<open>A response has one of the two envelope shapes that \<open>_extract_content\<close> unwraps.\<close>

definition matches_envelope :: "json \<Rightarrow> bool" where
  "matches_envelope payload =
     (case payload of
        JDict kvs \<Rightarrow> results_first_content kvs \<noteq> None \<or> map_of kvs ''content'' \<noteq> None
      | _ \<Rightarrow> False)"

text \<open>
  The outcomes of the fetches of a batch, one for each ASIN in order, each fetch starting
  in the world the loop has reached by then; and the records among a list of outcomes.
\<close>

fun attempts :: "network \<Rightarrow> json \<Rightarrow> json \<Rightarrow> json list \<Rightarrow> world \<Rightarrow> (error + pydict) list" where
  "attempts net geo_location domain [] w = []"
| "attempts net geo_location domain (a # rest) w =
     (case scrape_product_details net a geo_location domain w of
        (Inr product, w1) \<Rightarrow> Inr product # attempts net geo_location domain rest (pause w1)
      | (Inl e, w1) \<Rightarrow> Inl e # attempts net geo_location domain rest w1)"

fun successes :: "(error + 'a) list \<Rightarrow> 'a list" where
  "successes [] = []"
| "successes (Inr x # os) = x # successes os"
| "successes (Inl e # os) = successes os"

text \<open>What a list of events shows: the queries submitted, and the records inserted.\<close>

fun posted :: "event list \<Rightarrow> json list" where
  "posted [] = []"
| "posted (Posted p # es) = p # posted es"
| "posted (e # es) = posted es"

fun inserted :: "event list \<Rightarrow> pydict list" where
  "inserted [] = []"
| "inserted (StoreInsert r # es) = r # inserted es"
| "inserted (e # es) = inserted es"

text \<open>The fields of a submitted query.\<close>

definition field_of :: "string \<Rightarrow> json \<Rightarrow> json" where
  "field_of k p = (case p of JDict kvs \<Rightarrow> dict_get kvs k | _ \<Rightarrow> JNull)"

definition is_product_query :: "json \<Rightarrow> bool" where
  "is_product_query p = (field_of ''source'' p = JStr ''amazon_product'')"

definition is_search_query :: "json \<Rightarrow> bool" where
  "is_search_query p = (field_of ''source'' p = JStr ''amazon_search'')"

text \<open>
  From the world \<open>w\<close> to the world \<open>w'\<close> the program has submitted the queries \<open>ps\<close> and
  inserted the records \<open>rs\<close>, in these orders, and has taken no event back.
\<close>

definition steps :: "world \<Rightarrow> world \<Rightarrow> json list \<Rightarrow> pydict list \<Rightarrow> bool" where
  "steps w w' ps rs = (\<exists>es. events w' = events w @ es \<and> posted es = ps \<and> inserted es = rs)"

text \<open>What a search for the one category \<open>c\<close> carries in the field \<open>refinements\<close>.\<close>

definition category_refinement :: "string \<Rightarrow> json" where
  "category_refinement c = dict_get (refinements (Some [c])) ''refinements''"

text \<open>Fields of a record, and the ASIN a product query asks for.\<close>

definition asin_of :: "pydict \<Rightarrow> json" where
  "asin_of r = dict_get r ''asin''"

definition parent_of :: "pydict \<Rightarrow> json" where
  "parent_of r = dict_get r ''parent_asin''"

definition requested_asin :: "json \<Rightarrow> json" where
  "requested_asin p = field_of ''query'' p"

text \<open>
  Among the events \<open>es\<close> that follow the events \<open>before\<close>, the query \<open>p\<close> is submitted, and
  the answer of the scraping API to it, at that moment, is \<open>raw\<close>.
\<close>

definition answered :: "network \<Rightarrow> event list \<Rightarrow> event list \<Rightarrow> json \<Rightarrow> json \<Rightarrow> bool" where
  "answered net before es p raw =
     (\<exists>pre post. es = pre @ Posted p # post \<and> net (before @ pre) p = Inr raw)"

text \<open>
  The record \<open>r\<close> comes from the fetch of the ASIN \<open>a\<close> by the query \<open>p\<close>: its \<open>asin\<close> is
  \<open>a\<close>, or it is the \<open>asin\<close> reported by the content of the answer that \<open>p\<close> got among the
  events \<open>es\<close>.
\<close>

definition fetched_for ::
  "network \<Rightarrow> event list \<Rightarrow> event list \<Rightarrow> json \<Rightarrow> json \<Rightarrow> pydict \<Rightarrow> bool" where
  "fetched_for net before es p a r =
     (asin_of r = a
      \<or> (\<exists>raw c. answered net before es p raw \<and> extract_content raw = JDict c
             \<and> asin_of c = asin_of r))"

text \<open>
  The shape of every run of the competitor workflow: search queries for at most three
  categories, then one product query for each of at most twenty candidates, then the
  inserts of the records fetched, each marked with the parent's ASIN. A run that returns,
  returns the records it has inserted.
\<close>

definition bounded_run ::
  "network \<Rightarrow> (json list \<Rightarrow> json list) \<Rightarrow> string \<Rightarrow> world \<Rightarrow> (error + pydict list) \<Rightarrow> world \<Rightarrow> bool"
  where
  "bounded_run net asin_order P w res w' =
     (\<exists>es ps cats asins sd sg.
        events w' = events w @ es
        \<and> posted es = ps @ map (\<lambda>a. product_payload a sg sd) asins
        \<and> length cats \<le> 3
        \<and> (\<forall>p \<in> set ps. is_search_query p \<and> \<not> is_product_query p
               \<and> field_of ''refinements'' p \<in> category_refinement ` set cats)
        \<and> length asins \<le> 20
        \<and> (\<forall>a \<in> set asins. \<exists>found. a \<in> set (competitor_asins asin_order P found))
        \<and> (\<forall>rs. res = Inr rs \<longrightarrow> inserted es = rs)
        \<and> (\<forall>r \<in> set (inserted es). parent_of r = JStr P
               \<and> (\<exists>a \<in> set asins. fetched_for net (events w) es (product_payload a sg sd) a r)))"

section \<open>Properties\<close>

subsection \<open>Cleaning a title\<close>

lemma split_first_absent: "\<not> str_contains sep s \<Longrightarrow> split_first sep s = s"
  by (induction s) auto

lemma clean_search_title_sequential:
  "clean_search_title t = py_strip (split_first ''|'' (split_first '' - '' t))"
  by (simp add: clean_search_title_def Let_def split_first_absent)

lemma split_twice_truncate:
  "split_first ''|'' (split_first '' - '' t) = truncate_at_separator t"
  by (induction t) (auto simp: starts_with_def)

text \<open>
  C8, as the code has it. The two tests of \<open>_clean_search_title\<close> run one after the other
  and the second is no \<open>else\<close> of the first: the title is cut at the first \<open>" - "\<close> if
  there is one, what is left is cut at its first \<open>"|"\<close> if there is one, and the result is
  trimmed of the whitespace that \<open>str.strip\<close> removes, on any title, the characters beyond
  ASCII included. So the title is cut where the first of the two separators starts. The two
  readings agree unless the title has a \<open>"|"\<close> before its first \<open>" - "\<close>, and
  \<open>"Wireless Mouse - Black | 2.4GHz"\<close> cleans to \<open>"Wireless Mouse"\<close>.
\<close>

theorem clean_search_title_cuts_at_first_separator:
  "clean_search_title t = py_strip (split_first ''|'' (split_first '' - '' t))
   \<and> clean_search_title t = py_strip (truncate_at_separator t)
   \<and> (\<not> (str_contains '' - '' t \<and> str_contains ''|'' (split_first '' - '' t))
        \<longrightarrow> clean_search_title t = spec_clean_search_title t)
   \<and> clean_search_title ''Wireless Mouse - Black | 2.4GHz'' = ''Wireless Mouse''"
proof -
  have seq: "clean_search_title t = py_strip (split_first ''|'' (split_first '' - '' t))"
    by (rule clean_search_title_sequential)
  have cut: "clean_search_title t = py_strip (truncate_at_separator t)"
    by (simp add: seq split_twice_truncate)
  have agree: "clean_search_title t = spec_clean_search_title t"
    if "\<not> (str_contains '' - '' t \<and> str_contains ''|'' (split_first '' - '' t))"
    using that
    by (auto simp: clean_search_title_def spec_clean_search_title_def Let_def)
  have example: "clean_search_title ''Wireless Mouse - Black | 2.4GHz'' = ''Wireless Mouse''"
    by (simp add: clean_search_title_def Let_def starts_with_def py_strip_def space1_def space2_def space3_def)
  from seq cut agree example show ?thesis by blast
qed

theorem clean_search_title_cuts_at_first_separator_witness:
  "clean_search_title ''Mouse | wired'' = ''Mouse''
   \<and> spec_clean_search_title ''Mouse | wired'' = ''Mouse''
   \<and> clean_search_title ([CHR 0xD9, CHR 0x85] @ '' | wired'') = [CHR 0xD9, CHR 0x85]
   \<and> clean_search_title ([CHR 0xE3, CHR 0x80, CHR 0x80] @ ''Mouse - x'') = ''Mouse''
   \<and> py_strip (''Citt'' @ [CHR 0xC3, CHR 0xA0]) = ''Citt'' @ [CHR 0xC3, CHR 0xA0]"
proof -
  have absent: "\<not> (str_contains '' - '' ''Mouse | wired''
                   \<and> str_contains ''|'' (split_first '' - '' ''Mouse | wired''))"
    by (simp add: starts_with_def)
  have c: "clean_search_title ''Mouse | wired'' = ''Mouse''"
    by (simp add: clean_search_title_def Let_def starts_with_def py_strip_def space1_def
        space2_def space3_def)
  note clean_search_title_cuts_at_first_separator
         [of "''Mouse | wired''", THEN conjunct2, THEN conjunct2, THEN conjunct1]
  from this absent
  have e: "clean_search_title ''Mouse | wired'' = spec_clean_search_title ''Mouse | wired''"
    by (rule mp)
  from c e have d: "spec_clean_search_title ''Mouse | wired'' = ''Mouse''"
    by simp
  have x1: "clean_search_title ([CHR 0xD9, CHR 0x85] @ '' | wired'') = [CHR 0xD9, CHR 0x85]"
    by (simp add: clean_search_title_def Let_def starts_with_def py_strip_def space1_def
        space2_def space3_def)
  have x2: "clean_search_title ([CHR 0xE3, CHR 0x80, CHR 0x80] @ ''Mouse - x'') = ''Mouse''"
    by (simp add: clean_search_title_def Let_def starts_with_def py_strip_def space1_def
        space2_def space3_def)
  have x3: "py_strip (''Citt'' @ [CHR 0xC3, CHR 0xA0]) = ''Citt'' @ [CHR 0xC3, CHR 0xA0]"
    by (simp add: py_strip_def space1_def space2_def space3_def)
  show ?thesis
    by (intro conjI, rule c, rule d, rule x1, rule x2, rule x3)
qed

text \<open>
  C8, as the claim words it, fails on a title with a \<open>"|"\<close> before its first \<open>" - "\<close>: the
  claim cuts \<open>"A|B - C"\<close> at the \<open>" - "\<close> only and gives \<open>"A|B"\<close>, the code cuts what is
  left once more at the \<open>"|"\<close> and gives \<open>"A"\<close>.
\<close>

theorem clean_search_title_else_counterexample:
  "clean_search_title ''A|B - C'' = ''A''
   \<and> spec_clean_search_title ''A|B - C'' = ''A|B''
   \<and> clean_search_title ''A|B - C'' \<noteq> spec_clean_search_title ''A|B - C''"
  by (simp add: clean_search_title_def spec_clean_search_title_def Let_def starts_with_def
      py_strip_def space1_def space2_def space3_def)

subsection \<open>Unwrapping the response envelope\<close>

lemma results_first_content_iff:
  "(results_first_content kvs = Some v)
     = (\<exists>first rest. map_of kvs ''results'' = Some (JList (JDict first # rest))
          \<and> map_of first ''content'' = Some v)"
  unfolding results_first_content_def
  by (simp split: option.splits json.splits list.splits)

lemma extract_content_results:
  "results_first_content kvs = Some v \<Longrightarrow> extract_content (JDict kvs) = py_or v (JDict [])"
  by (simp add: extract_content_def)

lemma extract_content_top:
  "results_first_content kvs = None \<Longrightarrow> map_of kvs ''content'' = Some v \<Longrightarrow>
   extract_content (JDict kvs) = py_or v (JDict [])"
  by (simp add: extract_content_def)

lemma extract_content_neither:
  "\<not> matches_envelope payload \<Longrightarrow> extract_content payload = payload"
  by (auto simp: extract_content_def matches_envelope_def split: json.splits option.splits)

text \<open>
  C3. A response has the first envelope shape when \<open>"results"\<close> is a non-empty list whose
  first element is a dict with a \<open>"content"\<close> field, and the second when it has a top-level
  \<open>"content"\<close> field (and not the first shape); other keys and further results may be
  there. For an inner content that is a mapping \<open>c\<close>, a response of either shape unwraps
  to \<open>c\<close>; with a null inner content it unwraps to the empty mapping; a response of
  neither shape comes back unchanged. The envelopes \<open>{"results": [{"content": c}]}\<close> and
  \<open>{"content": c}\<close> are the smallest instances.
\<close>

theorem extract_content_envelopes:
  "((results_first_content kvs = Some v)
      = (\<exists>first rest. map_of kvs ''results'' = Some (JList (JDict first # rest))
           \<and> map_of first ''content'' = Some v))
   \<and> (results_first_content kvs = Some (JDict c) \<longrightarrow> extract_content (JDict kvs) = JDict c)
   \<and> (results_first_content kvs = None \<and> map_of kvs ''content'' = Some (JDict c)
        \<longrightarrow> extract_content (JDict kvs) = JDict c)
   \<and> (results_first_content kvs = Some JNull \<longrightarrow> extract_content (JDict kvs) = JDict [])
   \<and> (results_first_content kvs = None \<and> map_of kvs ''content'' = Some JNull
        \<longrightarrow> extract_content (JDict kvs) = JDict [])
   \<and> (\<not> matches_envelope payload \<longrightarrow> extract_content payload = payload)
   \<and> extract_content (JDict [(''results'', JList [JDict [(''content'', JDict c)]])]) = JDict c
   \<and> extract_content (JDict [(''content'', JDict c)]) = JDict c
   \<and> extract_content (JDict [(''results'', JList [JDict [(''content'', JNull)]])]) = JDict []
   \<and> extract_content (JDict [(''content'', JNull)]) = JDict []"
proof (intro conjI impI)
  show "(results_first_content kvs = Some v)
      = (\<exists>first rest. map_of kvs ''results'' = Some (JList (JDict first # rest))
           \<and> map_of first ''content'' = Some v)"
    by (rule results_first_content_iff)
  show "extract_content (JDict kvs) = JDict c" if "results_first_content kvs = Some (JDict c)"
    using extract_content_results [OF that] by (simp add: py_or_def)
  show "extract_content (JDict kvs) = JDict c"
    if "results_first_content kvs = None \<and> map_of kvs ''content'' = Some (JDict c)"
    using extract_content_top [of kvs "JDict c"] that by (simp add: py_or_def)
  show "extract_content (JDict kvs) = JDict []" if "results_first_content kvs = Some JNull"
    using extract_content_results [OF that] by (simp add: py_or_def)
  show "extract_content (JDict kvs) = JDict []"
    if "results_first_content kvs = None \<and> map_of kvs ''content'' = Some JNull"
    using extract_content_top [of kvs JNull] that by (simp add: py_or_def)
  show "extract_content payload = payload" if "\<not> matches_envelope payload"
    using that by (rule extract_content_neither)
  show "extract_content (JDict [(''results'', JList [JDict [(''content'', JDict c)]])]) = JDict c"
    by (simp add: extract_content_def results_first_content_def py_or_def)
  show "extract_content (JDict [(''content'', JDict c)]) = JDict c"
    by (simp add: extract_content_def results_first_content_def py_or_def)
  show "extract_content (JDict [(''results'', JList [JDict [(''content'', JNull)]])]) = JDict []"
    by (simp add: extract_content_def results_first_content_def py_or_def)
  show "extract_content (JDict [(''content'', JNull)]) = JDict []"
    by (simp add: extract_content_def results_first_content_def py_or_def)
qed

theorem extract_content_envelopes_witness:
  "extract_content (JDict [(''job'', JDict [(''id'', JStr ''7'')]),
      (''results'', JList [JDict [(''status_code'', JNum 200),
                                  (''content'', JDict [(''asin'', JStr ''B01''), (''title'', JStr ''Mouse'')])],
                           JDict [(''content'', JDict [(''asin'', JStr ''B02'')])]])])
     = JDict [(''asin'', JStr ''B01''), (''title'', JStr ''Mouse'')]
   \<and> extract_content (JDict [(''status'', JStr ''done''), (''results'', JList []),
      (''content'', JDict [(''asin'', JStr ''B01''), (''title'', JStr ''Mouse'')])])
     = JDict [(''asin'', JStr ''B01''), (''title'', JStr ''Mouse'')]
   \<and> extract_content (JDict [(''job'', JNull), (''results'', JList [JDict [(''content'', JNull)]])])
     = JDict []
   \<and> extract_content (JDict [(''asin'', JStr ''B01'')]) = JDict [(''asin'', JStr ''B01'')]
   \<and> extract_content (JList [JNum 1]) = JList [JNum 1]"
proof (intro conjI)
  let ?c = "[(''asin'', JStr ''B01''), (''title'', JStr ''Mouse'')]"
  let ?k1 = "[(''job'', JDict [(''id'', JStr ''7'')]),
      (''results'', JList [JDict [(''status_code'', JNum 200), (''content'', JDict ?c)],
                           JDict [(''content'', JDict [(''asin'', JStr ''B02'')])]])]"
  let ?k2 = "[(''status'', JStr ''done''), (''results'', JList []), (''content'', JDict ?c)]"
  let ?k3 = "[(''job'', JNull), (''results'', JList [JDict [(''content'', JNull)]])]"
  have h1: "results_first_content ?k1 = Some (JDict ?c)"
    by (simp add: results_first_content_def)
  have h2: "results_first_content ?k2 = None \<and> map_of ?k2 ''content'' = Some (JDict ?c)"
    by (simp add: results_first_content_def)
  have h3: "results_first_content ?k3 = Some JNull"
    by (simp add: results_first_content_def)
  have h4: "\<not> matches_envelope (JDict [(''asin'', JStr ''B01'')])"
    by (simp add: matches_envelope_def results_first_content_def)
  have h5: "\<not> matches_envelope (JList [JNum 1])"
    by (simp add: matches_envelope_def)
  note t1 = extract_content_envelopes [of ?k1 _ ?c, THEN conjunct2, THEN conjunct1]
  note t2 = extract_content_envelopes [of ?k2 _ ?c, THEN conjunct2, THEN conjunct2, THEN conjunct1]
  note t3 = extract_content_envelopes [of ?k3, THEN conjunct2, THEN conjunct2, THEN conjunct2, THEN conjunct1]
  note t4 = extract_content_envelopes [of _ _ _ "JDict [(''asin'', JStr ''B01'')]", THEN conjunct2, THEN conjunct2,
                THEN conjunct2, THEN conjunct2, THEN conjunct2, THEN conjunct1]
  note t5 = extract_content_envelopes [of _ _ _ "JList [JNum 1]", THEN conjunct2, THEN conjunct2,
                THEN conjunct2, THEN conjunct2, THEN conjunct2, THEN conjunct1]
  from t1 h1 show "extract_content (JDict ?k1) = JDict ?c" by (rule mp)
  from t2 h2 show "extract_content (JDict ?k2) = JDict ?c" by (rule mp)
  from t3 h3 show "extract_content (JDict ?k3) = JDict []" by (rule mp)
  from t4 h4 show "extract_content (JDict [(''asin'', JStr ''B01'')]) = JDict [(''asin'', JStr ''B01'')]"
    by (rule mp)
  from t5 h5 show "extract_content (JList [JNum 1]) = JList [JNum 1]" by (rule mp)
qed

subsection \<open>The analysis without a credential\<close>

text \<open>
  C5. When \<open>OPENAI_API_KEY\<close> is not set, or is empty once trimmed (of any whitespace
  that \<open>str.strip\<close> removes, the Unicode spaces included), the analysis returns
  the text \<open>Set OPENAI_API_KEY to run LLM analysis.\<close> and leaves the world as it was: no
  read of the store, no call of the language model, whatever the parent ASIN, the store
  and the model are.
\<close>

theorem analyze_competition_without_key:
  assumes "case env_key of None \<Rightarrow> True | Some v \<Rightarrow> py_strip v = []"
  shows "analyze_competition float_str float_nonzero llm env_key parent_asin w
           = (Inr ''Set OPENAI_API_KEY to run LLM analysis.'', w)"
  using assms
  by (auto simp: analyze_competition_def Let_def py_strip_def split: option.splits)

theorem analyze_competition_without_key_witness:
  "analyze_competition (\<lambda>n::int. ''1.0'') (\<lambda>n. n \<noteq> 0) (\<lambda>h args. Inl TransportFailure)
      (Some [CHR '' '', CHR 0x09, CHR 0xE3, CHR 0x80, CHR 0x80, CHR 0xC2, CHR 0xA0, CHR '' ''])
      ''B0PARENT01''
      \<lparr>events = [], store = [[(''asin'', JStr ''B0PARENT01'')]]\<rparr>
     = (Inr ''Set OPENAI_API_KEY to run LLM analysis.'',
        \<lparr>events = [], store = [[(''asin'', JStr ''B0PARENT01'')]]\<rparr>)
   \<and> analyze_competition (\<lambda>n::int. ''1.0'') (\<lambda>n. n \<noteq> 0) (\<lambda>h args. Inl TransportFailure)
      None ''B0PARENT01'' \<lparr>events = [], store = []\<rparr>
     = (Inr ''Set OPENAI_API_KEY to run LLM analysis.'', \<lparr>events = [], store = []\<rparr>)"
  by (intro conjI; rule analyze_competition_without_key)
     (simp_all add: py_strip_def space1_def space2_def space3_def)

subsection \<open>Scraping one product\<close>

lemma map_of_dict_set: "map_of (dict_set kvs k v) = (map_of kvs)(k \<mapsto> v)"
  by (induction kvs) (auto simp: fun_eq_iff)

lemma dict_get_dict_set:
  "dict_get (dict_set kvs k v) k' = (if k' = k then v else dict_get kvs k')"
  by (simp add: dict_get_def map_of_dict_set)

lemma normalize_product_asin:
  "normalize_product content = Inr n \<Longrightarrow>
   \<exists>c. content = JDict c \<and> map_of n ''asin'' = Some (dict_get c ''asin'')
        \<and> (\<exists>cp. category_path_of c = Inr cp)"
  by (auto simp: normalize_product_def split: json.splits sum.splits)

lemma normalize_product_returns:
  "category_path_of c = Inr cp \<Longrightarrow> \<exists>n. normalize_product (JDict c) = Inr n"
  by (simp add: normalize_product_def)

lemma scrape_product_details_Inr:
  "scrape_product_details net a geo domain w = (Inr r, w') \<Longrightarrow>
   \<exists>raw c cp. net (events w) (product_payload a geo domain) = Inr raw
      \<and> extract_content raw = JDict c \<and> category_path_of c = Inr cp
      \<and> w' = emit (Posted (product_payload a geo domain)) w
      \<and> map_of r ''asin'' = Some (if truthy (dict_get c ''asin'') then dict_get c ''asin'' else a)"
  by (auto simp: scrape_product_details_def post_query_def Let_def map_of_dict_set dict_get_def
      dest!: normalize_product_asin split: sum.splits if_splits)

lemma scrape_product_details_returns:
  "net (events w) (product_payload a geo domain) = Inr raw \<Longrightarrow>
   extract_content raw = JDict c \<Longrightarrow> category_path_of c = Inr cp \<Longrightarrow>
   \<exists>r. scrape_product_details net a geo domain w
         = (Inr r, emit (Posted (product_payload a geo domain)) w)"
  by (auto simp: scrape_product_details_def post_query_def Let_def normalize_product_def)

text \<open>
  C4. A fetch of the ASIN \<open>a\<close> returns a record exactly when the query is answered, the
  answer unwraps to a mapping, and that mapping's category path can be trimmed. The record
  returned then has \<open>asin\<close> equal to \<open>a\<close> when the mapping has no \<open>asin\<close> field, and for a
  non-empty \<open>a\<close> the record's \<open>asin\<close> is never empty: it is the truthy \<open>asin\<close> of the
  response, or \<open>a\<close>.
\<close>

theorem scrape_product_details_backfills_asin:
  "(net (events w) (product_payload (JStr a) geo domain) = Inr raw
      \<and> extract_content raw = JDict c \<and> category_path_of c = Inr cp
    \<longrightarrow> (\<exists>r. scrape_product_details net (JStr a) geo domain w
                = (Inr r, emit (Posted (product_payload (JStr a) geo domain)) w)
             \<and> (map_of c ''asin'' = None \<longrightarrow> map_of r ''asin'' = Some (JStr a))
             \<and> (a \<noteq> [] \<longrightarrow> (\<exists>v. map_of r ''asin'' = Some v \<and> truthy v))))
   \<and> (scrape_product_details net (JStr a) geo domain w = (Inr r', w')
    \<longrightarrow> (\<exists>raw c cp. net (events w) (product_payload (JStr a) geo domain) = Inr raw
           \<and> extract_content raw = JDict c \<and> category_path_of c = Inr cp))"
proof (intro conjI impI)
  assume h: "net (events w) (product_payload (JStr a) geo domain) = Inr raw
      \<and> extract_content raw = JDict c \<and> category_path_of c = Inr cp"
  from h have h1: "net (events w) (product_payload (JStr a) geo domain) = Inr raw"
    by (elim conjE)
  from h have h2: "extract_content raw = JDict c"
    by (elim conjE)
  from h have h3: "category_path_of c = Inr cp"
    by (elim conjE)
  from scrape_product_details_returns [of net w "JStr a" geo domain raw c cp, OF h1 h2 h3]
  obtain r where r: "scrape_product_details net (JStr a) geo domain w
         = (Inr r, emit (Posted (product_payload (JStr a) geo domain)) w)"
    by (elim exE)
  from scrape_product_details_Inr [OF r]
  obtain raw2 c2 where e1: "net (events w) (product_payload (JStr a) geo domain) = Inr raw2"
    and e2: "extract_content raw2 = JDict c2"
    and e3: "map_of r ''asin''
             = Some (if truthy (dict_get c2 ''asin'') then dict_get c2 ''asin'' else JStr a)"
    by (elim exE conjE)
  from e1 h1 have "raw2 = raw" by simp
  with e2 h2 have "c2 = c" by simp
  with e3 have m: "map_of r ''asin''
             = Some (if truthy (dict_get c ''asin'') then dict_get c ''asin'' else JStr a)"
    by simp
  have omit: "map_of c ''asin'' = None \<longrightarrow> map_of r ''asin'' = Some (JStr a)"
    by (simp add: m dict_get_def)
  have nonempty: "a \<noteq> [] \<longrightarrow> (\<exists>v. map_of r ''asin'' = Some v \<and> truthy v)"
    by (simp add: m)
  show "\<exists>r. scrape_product_details net (JStr a) geo domain w
                = (Inr r, emit (Posted (product_payload (JStr a) geo domain)) w)
             \<and> (map_of c ''asin'' = None \<longrightarrow> map_of r ''asin'' = Some (JStr a))
             \<and> (a \<noteq> [] \<longrightarrow> (\<exists>v. map_of r ''asin'' = Some v \<and> truthy v))"
    by (rule exI [of _ r], intro conjI, rule r, rule omit, rule nonempty)
next
  assume "scrape_product_details net (JStr a) geo domain w = (Inr r', w')"
  from scrape_product_details_Inr [OF this]
  obtain raw2 c2 cp2 where "net (events w) (product_payload (JStr a) geo domain) = Inr raw2"
    and "extract_content raw2 = JDict c2" and "category_path_of c2 = Inr cp2"
    by (elim exE conjE)
  then show "\<exists>raw c cp. net (events w) (product_payload (JStr a) geo domain) = Inr raw
           \<and> extract_content raw = JDict c \<and> category_path_of c = Inr cp"
    by (intro exI conjI)
qed

theorem scrape_product_details_backfills_asin_witness:
  "\<exists>r. scrape_product_details
     (\<lambda>h p. Inr (JDict [(''results'', JList [JDict [(''content'',
       JDict [(''title'', JStr ''Mouse''), (''price'', JNum 5)])]])]))
   (JStr ''B0REQ00001'') (JStr ''11511'') (JStr ''eg'') \<lparr>events = [], store = []\<rparr>
   = (Inr r, emit (Posted (product_payload (JStr ''B0REQ00001'') (JStr ''11511'') (JStr ''eg'')))
         \<lparr>events = [], store = []\<rparr>)
   \<and> map_of r ''asin'' = Some (JStr ''B0REQ00001'')"
proof -
  let ?net = "\<lambda>(h::event list) (p::json). (Inr (JDict [(''results'', JList [JDict [(''content'',
       JDict [(''title'', JStr ''Mouse''), (''price'', JNum 5)])]])]) :: error + json)"
  let ?c = "[(''title'', JStr ''Mouse''), (''price'', JNum 5)]"
  let ?raw = "JDict [(''results'', JList [JDict [(''content'', JDict ?c)]])]"
  let ?w = "\<lparr>events = [], store = []\<rparr>"
  have a: "?net (events ?w) (product_payload (JStr ''B0REQ00001'') (JStr ''11511'') (JStr ''eg''))
             = Inr ?raw
      \<and> extract_content ?raw = JDict ?c \<and> category_path_of ?c = Inr []"
    by (simp add: extract_content_def results_first_content_def py_or_def category_path_of_def
        dict_get_def)
  have b: "map_of ?c ''asin'' = None" by simp
  from scrape_product_details_backfills_asin
         [of ?net ?w "''B0REQ00001''" "JStr ''11511''" "JStr ''eg''" ?raw ?c "[]"]
  have main: "?net (events ?w) (product_payload (JStr ''B0REQ00001'') (JStr ''11511'') (JStr ''eg''))
             = Inr ?raw
      \<and> extract_content ?raw = JDict ?c \<and> category_path_of ?c = Inr []
    \<longrightarrow> (\<exists>r. scrape_product_details ?net (JStr ''B0REQ00001'') (JStr ''11511'') (JStr ''eg'') ?w
                = (Inr r, emit (Posted (product_payload (JStr ''B0REQ00001'') (JStr ''11511'')
                     (JStr ''eg''))) ?w)
             \<and> (map_of ?c ''asin'' = None \<longrightarrow> map_of r ''asin'' = Some (JStr ''B0REQ00001''))
             \<and> (''B0REQ00001'' \<noteq> [] \<longrightarrow> (\<exists>v. map_of r ''asin'' = Some v \<and> truthy v)))"
    by (rule conjunct1)
  from main a have "\<exists>r. scrape_product_details ?net (JStr ''B0REQ00001'') (JStr ''11511'') (JStr ''eg'') ?w
                = (Inr r, emit (Posted (product_payload (JStr ''B0REQ00001'') (JStr ''11511'')
                     (JStr ''eg''))) ?w)
             \<and> (map_of ?c ''asin'' = None \<longrightarrow> map_of r ''asin'' = Some (JStr ''B0REQ00001''))
             \<and> (''B0REQ00001'' \<noteq> [] \<longrightarrow> (\<exists>v. map_of r ''asin'' = Some v \<and> truthy v))"
    by (rule mp)
  then obtain r where
    r1: "scrape_product_details ?net (JStr ''B0REQ00001'') (JStr ''11511'') (JStr ''eg'') ?w
                = (Inr r, emit (Posted (product_payload (JStr ''B0REQ00001'') (JStr ''11511'')
                     (JStr ''eg''))) ?w)"
    and r2: "map_of ?c ''asin'' = None \<longrightarrow> map_of r ''asin'' = Some (JStr ''B0REQ00001'')"
    by (elim exE conjE)
  from r2 b have r3: "map_of r ''asin'' = Some (JStr ''B0REQ00001'')"
    by (rule mp)
  show ?thesis
    by (rule exI [of _ r], rule conjI, rule r1, rule r3)
qed

subsection \<open>Scraping a batch\<close>

lemma scrape_loop_successes:
  "fst (scrape_loop net geo domain asins acc w) = acc @ successes (attempts net geo domain asins w)"
  by (induction asins arbitrary: acc w) (auto split: prod.splits sum.splits)

lemma length_attempts: "length (attempts net geo domain asins w) = length asins"
  by (induction asins arbitrary: w) (auto split: prod.splits sum.splits)

text \<open>
  C6. The batch returns exactly the records of the fetches that succeeded, in the order of
  their ASINs: every ASIN is attempted once, a failed fetch contributes nothing and does
  not end the loop.
\<close>

theorem scrape_multiple_products_keeps_successes:
  "fst (scrape_multiple_products net asins geo_location domain w)
     = successes (attempts net geo_location domain asins w)
   \<and> length (attempts net geo_location domain asins w) = length asins"
  by (simp add: scrape_multiple_products_def scrape_loop_successes length_attempts)

text \<open>Five ASINs, the fetch of the third failing: the other four records come back.\<close>

theorem scrape_multiple_products_keeps_successes_witness:
  "map (\<lambda>r. dict_get r ''asin'')
     (fst (scrape_multiple_products
        (\<lambda>h p. if field_of ''query'' p = JStr ''A3'' then Inl TransportFailure
                else Inr (JDict [(''content'', JDict [(''title'', JStr ''Mouse'')])]))
        [JStr ''A1'', JStr ''A2'', JStr ''A3'', JStr ''A4'', JStr ''A5'']
        (JStr ''11511'') (JStr ''eg'') \<lparr>events = [], store = []\<rparr>))
     = [JStr ''A1'', JStr ''A2'', JStr ''A4'', JStr ''A5'']
   \<and> map (\<lambda>r. dict_get r ''asin'')
     (successes (attempts
        (\<lambda>h p. if field_of ''query'' p = JStr ''A3'' then Inl TransportFailure
                else Inr (JDict [(''content'', JDict [(''title'', JStr ''Mouse'')])]))
        (JStr ''11511'') (JStr ''eg'')
        [JStr ''A1'', JStr ''A2'', JStr ''A3'', JStr ''A4'', JStr ''A5'']
        \<lparr>events = [], store = []\<rparr>))
     = [JStr ''A1'', JStr ''A2'', JStr ''A4'', JStr ''A5'']"
proof -
  let ?net = "\<lambda>(h::event list) p. if field_of ''query'' p = JStr ''A3'' then Inl TransportFailure
                else Inr (JDict [(''content'', JDict [(''title'', JStr ''Mouse'')])])"
  let ?asins = "[JStr ''A1'', JStr ''A2'', JStr ''A3'', JStr ''A4'', JStr ''A5'']"
  let ?w = "\<lparr>events = [], store = []\<rparr>"
  have run: "map (\<lambda>r. dict_get r ''asin'')
      (fst (scrape_multiple_products ?net ?asins (JStr ''11511'') (JStr ''eg'') ?w))
      = [JStr ''A1'', JStr ''A2'', JStr ''A4'', JStr ''A5'']"
    by (simp add: scrape_multiple_products_def scrape_product_details_def post_query_def emit_def
      pause_def product_payload_def field_of_def dict_get_def dict_get_default_def
      extract_content_def results_first_content_def py_or_def normalize_product_def
      category_path_of_def Let_def)
  from scrape_multiple_products_keeps_successes
         [of ?net ?asins "JStr ''11511''" "JStr ''eg''" ?w]
  have "fst (scrape_multiple_products ?net ?asins (JStr ''11511'') (JStr ''eg'') ?w)
          = successes (attempts ?net (JStr ''11511'') (JStr ''eg'') ?asins ?w)"
    by (rule conjunct1)
  with run show ?thesis by (simp only: simp_thms)
qed

text \<open>
  C7, on the code. In a batch of two ASINs whose first fetch fails, the second query is
  submitted right after the first: the \<open>continue\<close> of the handler skips the pause, and the
  only pause is the one after the fetch that succeeded.
\<close>

theorem scrape_multiple_products_no_pause_after_failure:
  "events (snd (scrape_multiple_products
     (\<lambda>h p. if field_of ''query'' p = JStr ''A1'' then Inl TransportFailure
             else Inr (JDict [(''content'', JDict [(''title'', JStr ''Mouse'')])]))
     [JStr ''A1'', JStr ''A2''] (JStr ''11511'') (JStr ''eg'') \<lparr>events = [], store = []\<rparr>))
   = [Posted (product_payload (JStr ''A1'') (JStr ''11511'') (JStr ''eg'')),
      Posted (product_payload (JStr ''A2'') (JStr ''11511'') (JStr ''eg'')),
      Slept 300]"
  by (simp add: scrape_multiple_products_def scrape_product_details_def post_query_def emit_def
      pause_def product_payload_def field_of_def dict_get_def dict_get_default_def
      extract_content_def results_first_content_def py_or_def normalize_product_def
      category_path_of_def Let_def)

subsection \<open>The text report\<close>

lemma price_str_cases:
  "price_str float_str float_nonzero c =
     (case price c of
        None \<Rightarrow> ''N/A''
      | Some p \<Rightarrow>
          (if \<not> float_nonzero p then ''N/A''
           else (case currency c of
                   None \<Rightarrow> ''$'' @ float_str p
                 | Some cur \<Rightarrow>
                     (if cur = [] then ''$'' @ float_str p else cur @ '' '' @ float_str p))))"
  by (simp add: price_str_def opt_truthy_def opt_text_def Let_def split: option.splits)

lemma py_join_if_nonempty: "(if ks \<noteq> [] then py_join sep ks else []) = py_join sep ks"
  by (cases ks) auto

lemma price_str_spec:
  "currency c \<noteq> Some [] \<Longrightarrow> (\<forall>p. price c = Some p \<longrightarrow> float_nonzero p) \<Longrightarrow>
   price_str float_str float_nonzero c = spec_price_str float_str c"
  by (auto simp: price_str_cases spec_price_str_def split: option.splits)

lemma competitor_line_spec:
  "currency c \<noteq> Some [] \<Longrightarrow> (\<forall>p. price c = Some p \<longrightarrow> float_nonzero p) \<Longrightarrow>
   competitor_line float_str float_nonzero c
     = spec_competitor_line_marked rating_marker float_str c"
  by (simp add: competitor_line_def spec_competitor_line_marked_def price_str_spec
      py_join_if_nonempty Let_def)

lemma report_lines_cap:
  "report_lines fs fnz (result\<lparr>top_competitors := take 5 (top_competitors result)\<rparr>)
     = report_lines fs fnz result"
  by (simp add: report_lines_def)

lemma length_report_lines:
  "length (report_lines fs fnz result)
     = 3 + min 5 (length (top_competitors result))
       + (if recommendations result = [] then 0 else Suc (length (recommendations result)))"
  by (simp add: report_lines_def min_def)

text \<open>
  C9, as the code has it. After its three heading lines the report has one line for each of
  the first five entries of \<open>top_competitors\<close> and none for a later entry. A line is
  \<open>- {asin} | {title} | {price_str} | M {rating} {key_points joined by '; '}\<close> where \<open>M\<close>
  is the marker literal of the source, whose characters are left open here. The price text
  is \<open>{currency} {price}\<close> when the currency is a non-empty text and the price is a
  non-zero number, \<open>${price}\<close> when the price is a non-zero number and the currency is
  absent or empty, and \<open>N/A\<close> when the price is absent or zero. For an entry whose
  currency is not the empty text and whose price is not zero, the line is the
  specification's with the marker in the place of its word.
\<close>

theorem report_lists_competitor_lines:
  "report_lines float_str float_nonzero result
       = [''Summary:'' @ [CHR 0x0A] @ summary result,
          [CHR 0x0A] @ ''Positioning:'' @ [CHR 0x0A] @ positioning result,
          [CHR 0x0A] @ ''Top Competitors:'']
         @ map (competitor_line float_str float_nonzero) (take 5 (top_competitors result))
         @ (if recommendations result \<noteq> []
            then ([CHR 0x0A] @ ''Recommendations:'')
                 # map (\<lambda>r. ''- '' @ r) (recommendations result)
            else [])
   \<and> length (report_lines float_str float_nonzero result)
       = 3 + min 5 (length (top_competitors result))
         + (if recommendations result = [] then 0 else Suc (length (recommendations result)))
   \<and> report_lines float_str float_nonzero
         (result\<lparr>top_competitors := take 5 (top_competitors result)\<rparr>)
       = report_lines float_str float_nonzero result
   \<and> render_report float_str float_nonzero result
       = py_join [CHR 0x0A] (report_lines float_str float_nonzero result)
   \<and> competitor_line float_str float_nonzero c
       = ''- '' @ asin c @ '' | '' @ opt_text id (title c) @ '' | ''
           @ price_str float_str float_nonzero c @ '' | '' @ rating_marker @ '' ''
           @ opt_text float_str (rating c) @ '' '' @ py_join ''; '' (key_points c)
   \<and> price_str float_str float_nonzero c =
       (case price c of
          None \<Rightarrow> ''N/A''
        | Some p \<Rightarrow>
            (if \<not> float_nonzero p then ''N/A''
             else (case currency c of
                     None \<Rightarrow> ''$'' @ float_str p
                   | Some cur \<Rightarrow>
                       (if cur = [] then ''$'' @ float_str p else cur @ '' '' @ float_str p))))
   \<and> (currency c \<noteq> Some [] \<and> (\<forall>p. price c = Some p \<longrightarrow> float_nonzero p)
        \<longrightarrow> competitor_line float_str float_nonzero c
              = spec_competitor_line_marked rating_marker float_str c)"
proof (intro conjI)
  show "report_lines float_str float_nonzero result
       = [''Summary:'' @ [CHR 0x0A] @ summary result,
          [CHR 0x0A] @ ''Positioning:'' @ [CHR 0x0A] @ positioning result,
          [CHR 0x0A] @ ''Top Competitors:'']
         @ map (competitor_line float_str float_nonzero) (take 5 (top_competitors result))
         @ (if recommendations result \<noteq> []
            then ([CHR 0x0A] @ ''Recommendations:'')
                 # map (\<lambda>r. ''- '' @ r) (recommendations result)
            else [])"
    by (simp only: report_lines_def)
  show "length (report_lines float_str float_nonzero result)
       = 3 + min 5 (length (top_competitors result))
         + (if recommendations result = [] then 0 else Suc (length (recommendations result)))"
    by (rule length_report_lines)
  show "report_lines float_str float_nonzero
         (result\<lparr>top_competitors := take 5 (top_competitors result)\<rparr>)
       = report_lines float_str float_nonzero result"
    by (rule report_lines_cap)
  show "render_report float_str float_nonzero result
       = py_join [CHR 0x0A] (report_lines float_str float_nonzero result)"
    by (simp add: render_report_def)
  show "competitor_line float_str float_nonzero c
       = ''- '' @ asin c @ '' | '' @ opt_text id (title c) @ '' | ''
           @ price_str float_str float_nonzero c @ '' | '' @ rating_marker @ '' ''
           @ opt_text float_str (rating c) @ '' '' @ py_join ''; '' (key_points c)"
    by (simp add: competitor_line_def py_join_if_nonempty Let_def)
  show "price_str float_str float_nonzero c =
       (case price c of
          None \<Rightarrow> ''N/A''
        | Some p \<Rightarrow>
            (if \<not> float_nonzero p then ''N/A''
             else (case currency c of
                     None \<Rightarrow> ''$'' @ float_str p
                   | Some cur \<Rightarrow>
                       (if cur = [] then ''$'' @ float_str p else cur @ '' '' @ float_str p))))"
    by (rule price_str_cases)
  show "currency c \<noteq> Some [] \<and> (\<forall>p. price c = Some p \<longrightarrow> float_nonzero p)
        \<longrightarrow> competitor_line float_str float_nonzero c
              = spec_competitor_line_marked rating_marker float_str c"
    by (intro impI, elim conjE, rule competitor_line_spec)
qed

text \<open>
  In the two theorems below a float is written as the text Python prints for it, and is
  non-zero unless that text is \<open>0.0\<close> or \<open>-0.0\<close>.
\<close>

theorem report_lists_competitor_lines_witness:
  "competitor_line (\<lambda>s. s) (\<lambda>s. s \<noteq> ''0.0'' \<and> s \<noteq> ''-0.0'')
     \<lparr>asin = ''B0TEST0001'', title = Some ''Mouse'', price = Some ''5.0'',
      currency = Some ''EGP'', rating = Some ''4.0'', key_points = [''cheap'', ''wired'']\<rparr>
   = ''- B0TEST0001 | Mouse | EGP 5.0 | '' @ rating_marker @ '' 4.0 cheap; wired''
   \<and> length (report_lines (\<lambda>s. s) (\<lambda>s. s \<noteq> ''0.0'' \<and> s \<noteq> ''-0.0'')
       \<lparr>summary = ''S'', positioning = ''P'',
        top_competitors = replicate 7
          \<lparr>asin = ''B0TEST0001'', title = Some ''Mouse'', price = Some ''5.0'',
           currency = Some ''EGP'', rating = Some ''4.0'', key_points = [''cheap'', ''wired'']\<rparr>,
        recommendations = []\<rparr>) = 8"
proof (rule conjI)
  let ?c = "\<lparr>asin = ''B0TEST0001'', title = Some ''Mouse'', price = Some ''5.0'',
      currency = Some ''EGP'', rating = Some ''4.0'', key_points = [''cheap'', ''wired'']\<rparr>"
  let ?nz = "\<lambda>s::string. s \<noteq> ''0.0'' \<and> s \<noteq> ''-0.0''"
  let ?r = "\<lparr>summary = ''S'', positioning = ''P'', top_competitors = replicate 7 ?c,
        recommendations = []\<rparr>"
  have pre: "currency ?c \<noteq> Some [] \<and> (\<forall>p. price ?c = Some p \<longrightarrow> ?nz p)"
    by simp
  note report_lists_competitor_lines [of "\<lambda>s. s" ?nz ?r ?c, THEN conjunct2, THEN conjunct2, THEN conjunct2,
          THEN conjunct2, THEN conjunct2, THEN conjunct2]
  from this pre have "competitor_line (\<lambda>s. s) ?nz ?c
              = spec_competitor_line_marked rating_marker (\<lambda>s. s) ?c"
    by (rule mp)
  then show "competitor_line (\<lambda>s. s) ?nz ?c
      = ''- B0TEST0001 | Mouse | EGP 5.0 | '' @ rating_marker @ '' 4.0 cheap; wired''"
    by (simp add: spec_competitor_line_marked_def spec_price_str_def opt_text_def)
  note report_lists_competitor_lines [of "\<lambda>s. s" ?nz ?r ?c, THEN conjunct2, THEN conjunct1]
  then show "length (report_lines (\<lambda>s. s) ?nz ?r) = 8"
    by simp
qed

text \<open>
  C9, as the claim words it, fails on an entry with a currency and the price \<open>0.0\<close>: both
  are present, and the claim's price text is \<open>EGP 0.0\<close>, where the code, which tests the
  truth value of the price, gives \<open>N/A\<close>: the lines differ whatever stands before the
  rating. On an entry with a non-zero price the lines differ too, the code's line having
  its marker literal where the claim's has the word \<open>rating\<close>.
\<close>

theorem competitor_line_zero_price_counterexample:
  "price_str (\<lambda>s. s) (\<lambda>s. s \<noteq> ''0.0'' \<and> s \<noteq> ''-0.0'')
     \<lparr>asin = ''B0TEST0001'', title = Some ''Mouse'', price = Some ''0.0'',
      currency = Some ''EGP'', rating = Some ''4.0'', key_points = [''cheap'']\<rparr> = ''N/A''
   \<and> spec_price_str (\<lambda>s. s)
     \<lparr>asin = ''B0TEST0001'', title = Some ''Mouse'', price = Some ''0.0'',
      currency = Some ''EGP'', rating = Some ''4.0'', key_points = [''cheap'']\<rparr> = ''EGP 0.0''
   \<and> competitor_line (\<lambda>s. s) (\<lambda>s. s \<noteq> ''0.0'' \<and> s \<noteq> ''-0.0'')
     \<lparr>asin = ''B0TEST0001'', title = Some ''Mouse'', price = Some ''0.0'',
      currency = Some ''EGP'', rating = Some ''4.0'', key_points = [''cheap'']\<rparr>
     \<noteq> spec_competitor_line (\<lambda>s. s)
     \<lparr>asin = ''B0TEST0001'', title = Some ''Mouse'', price = Some ''0.0'',
      currency = Some ''EGP'', rating = Some ''4.0'', key_points = [''cheap'']\<rparr>
   \<and> competitor_line (\<lambda>s. s) (\<lambda>s. s \<noteq> ''0.0'' \<and> s \<noteq> ''-0.0'')
     \<lparr>asin = ''B0TEST0001'', title = Some ''Mouse'', price = Some ''0.0'',
      currency = Some ''EGP'', rating = Some ''4.0'', key_points = [''cheap'']\<rparr>
     \<noteq> spec_competitor_line_marked rating_marker (\<lambda>s. s)
     \<lparr>asin = ''B0TEST0001'', title = Some ''Mouse'', price = Some ''0.0'',
      currency = Some ''EGP'', rating = Some ''4.0'', key_points = [''cheap'']\<rparr>
   \<and> competitor_line (\<lambda>s. s) (\<lambda>s. s \<noteq> ''0.0'' \<and> s \<noteq> ''-0.0'')
     \<lparr>asin = ''B0TEST0001'', title = Some ''Mouse'', price = Some ''5.0'',
      currency = Some ''EGP'', rating = Some ''4.0'', key_points = [''cheap'']\<rparr>
     \<noteq> spec_competitor_line (\<lambda>s. s)
     \<lparr>asin = ''B0TEST0001'', title = Some ''Mouse'', price = Some ''5.0'',
      currency = Some ''EGP'', rating = Some ''4.0'', key_points = [''cheap'']\<rparr>"
  by (simp add: competitor_line_def spec_competitor_line_def spec_competitor_line_marked_def
      price_str_cases spec_price_str_def opt_text_def rating_marker_def)

subsection \<open>The search sweep\<close>

lemma posted_append: "posted (xs @ ys) = posted xs @ posted ys"
  by (induction xs rule: posted.induct) auto



lemma post_query_world: "snd (post_query net p w) = emit (Posted p) w"
  by (simp add: post_query_def)









subsection \<open>The competitor workflow\<close>

lemma inserted_append: "inserted (xs @ ys) = inserted xs @ inserted ys"
  by (induction xs rule: inserted.induct) auto

lemma steps_refl: "steps w w [] []"
  by (simp add: steps_def)

lemma steps_trans:
  "steps w w1 ps1 rs1 \<Longrightarrow> steps w1 w2 ps2 rs2 \<Longrightarrow> steps w w2 (ps1 @ ps2) (rs1 @ rs2)"
  unfolding steps_def
  by (elim exE conjE, rule_tac x = "es @ esa" in exI) (simp add: posted_append inserted_append)

lemma steps_emit_Posted: "steps w (emit (Posted p) w) [p] []"
  by (simp add: steps_def emit_def)

lemma steps_pause: "steps w (pause w) [] []"
  by (simp add: steps_def pause_def emit_def)

lemma steps_emit_StoreRead: "steps w (emit StoreRead w) [] []"
  by (simp add: steps_def emit_def)

lemma steps_insert: "steps w (snd (insert_product r w)) [] [r]"
  by (simp add: steps_def insert_product_def emit_def)

lemma search_payload_fields:
  "is_search_query (search_payload t d c g s n)
   \<and> \<not> is_product_query (search_payload t d c g s n)
   \<and> field_of ''refinements'' (search_payload t d c g s n) = dict_get (refinements c) ''refinements''"
  by (simp add: search_payload_def is_search_query_def is_product_query_def field_of_def
      dict_get_def map_add_def split: option.splits)

lemma product_payload_fields:
  "is_product_query (product_payload a g d)
   \<and> \<not> is_search_query (product_payload a g d)
   \<and> field_of ''query'' (product_payload a g d) = a"
  by (simp add: product_payload_def is_search_query_def is_product_query_def field_of_def
      dict_get_def)

lemma pages_loop_steps:
  "\<exists>ps. steps w (snd (pages_loop net t d c g s pages acc w)) ps []
        \<and> (\<forall>p \<in> set ps. \<exists>s n. p = search_payload t d c g s n)"
proof (induction pages arbitrary: acc w)
  case Nil
  show ?case by (rule exI [of _ "[]"]) (simp add: steps_refl)
next
  case (Cons page rest)
  let ?p = "search_payload t d c g s page"
  let ?w1 = "emit (Posted ?p) w"
  have first: "steps w ?w1 [?p] []"
    by (rule steps_emit_Posted)
  show ?case
  proof (cases "\<exists>raw items acc1. net (events w) ?p = Inr raw
                  \<and> extract_search_results (extract_content raw) = Inr items
                  \<and> process_items items acc = Inr acc1")
    case True
    then obtain raw items acc1 where a: "net (events w) ?p = Inr raw"
      and b: "extract_search_results (extract_content raw) = Inr items"
      and c: "process_items items acc = Inr acc1"
      by (elim exE conjE)
    have step: "pages_loop net t d c g s (page # rest) acc w
                 = pages_loop net t d c g s rest acc1 (pause ?w1)"
      by (simp add: post_query_def a b c)
    from Cons.IH [of "pause ?w1" acc1] obtain ps where
      ps1: "steps (pause ?w1) (snd (pages_loop net t d c g s rest acc1 (pause ?w1))) ps []"
      and ps2: "\<forall>p \<in> set ps. \<exists>s n. p = search_payload t d c g s n"
      by (elim exE conjE)
    from steps_trans [OF first steps_pause]
    have "steps w (pause ?w1) [?p] []" by simp
    from steps_trans [OF this ps1]
    have all: "steps w (snd (pages_loop net t d c g s rest acc1 (pause ?w1))) (?p # ps) []"
      by simp
    have each: "\<forall>p \<in> set (?p # ps). \<exists>s n. p = search_payload t d c g s n"
      using ps2 by auto
    show ?thesis
      unfolding step by (rule exI [of _ "?p # ps"]) (use all each in simp)
  next
    case False
    then have "\<exists>e. pages_loop net t d c g s (page # rest) acc w = (Inl e, ?w1)"
      by (auto simp: post_query_def split: sum.splits)
    then obtain e where e: "pages_loop net t d c g s (page # rest) acc w = (Inl e, ?w1)"
      by (elim exE)
    show ?thesis
      unfolding e by (rule exI [of _ "[?p]"]) (use first in auto)
  qed
qed

lemma strategies_loop_steps:
  "\<exists>ps. steps w (snd (strategies_loop net t d c g pages ss acc w)) ps []
        \<and> (\<forall>p \<in> set ps. \<exists>s n. p = search_payload t d c g s n)"
proof (induction ss arbitrary: acc w)
  case Nil
  show ?case by (rule exI [of _ "[]"]) (simp add: steps_refl)
next
  case (Cons s rest)
  obtain r w1 where run: "pages_loop net t d c g s [1 .. max 1 pages] acc w = (r, w1)"
    by (cases "pages_loop net t d c g s [1 .. max 1 pages] acc w")
  from pages_loop_steps [of w net t d c g s "[1 .. max 1 pages]" acc] obtain ps where
    ps1: "steps w w1 ps []"
    and ps2: "\<forall>p \<in> set ps. \<exists>s n. p = search_payload t d c g s n"
    unfolding run by (elim exE conjE) simp
  show ?case
  proof (cases r)
    case (Inl e)
    have stop: "strategies_loop net t d c g pages (s # rest) acc w = (Inl e, w1)"
      by (simp add: run Inl)
    show ?thesis
      unfolding stop by (rule exI [of _ ps]) (use ps1 ps2 in simp)
  next
    case (Inr acc1)
    have step: "strategies_loop net t d c g pages (s # rest) acc w
                  = strategies_loop net t d c g pages rest acc1 w1"
      by (simp add: run Inr)
    from Cons.IH [of w1 acc1] obtain qs where
      qs1: "steps w1 (snd (strategies_loop net t d c g pages rest acc1 w1)) qs []"
      and qs2: "\<forall>p \<in> set qs. \<exists>s n. p = search_payload t d c g s n"
      by (elim exE conjE)
    from steps_trans [OF ps1 qs1]
    have all: "steps w (snd (strategies_loop net t d c g pages rest acc1 w1)) (ps @ qs) []"
      by simp
    have each: "\<forall>p \<in> set (ps @ qs). \<exists>s n. p = search_payload t d c g s n"
      using ps2 qs2 by auto
    show ?thesis
      unfolding step by (rule exI [of _ "ps @ qs"]) (use all each in simp)
  qed
qed

lemma search_competitors_steps:
  "\<exists>ps. steps w (snd (search_competitors net q d c pages g w)) ps []
        \<and> (\<forall>p \<in> set ps. \<exists>t s n. p = search_payload t d c g s n)"
proof (cases "clean_title_of q")
  case (Inl e)
  then have "snd (search_competitors net q d c pages g w) = w"
    by (simp add: search_competitors_def)
  then show ?thesis
    by (simp add: exI [of _ "[]"] steps_refl)
next
  case (Inr t)
  have same: "snd (search_competitors net q d c pages g w)
               = snd (strategies_loop net t d c g pages strategies ([], []) w)"
    by (simp add: search_competitors_def Inr split: prod.splits sum.splits)
  from strategies_loop_steps [of w net t d c g pages strategies "([], [])"] obtain ps where
    ps1: "steps w (snd (strategies_loop net t d c g pages strategies ([], []) w)) ps []"
    and ps2: "\<forall>p \<in> set ps. \<exists>s n. p = search_payload t d c g s n"
    by (elim exE conjE)
  have "\<forall>p \<in> set ps. \<exists>t s n. p = search_payload t d c g s n"
  proof (intro ballI)
    fix p
    assume "p \<in> set ps"
    with ps2 obtain s n where "p = search_payload t d c g s n"
      by blast
    then show "\<exists>t s n. p = search_payload t d c g s n"
      by (intro exI)
  qed
  with ps1 show ?thesis
    unfolding same by (intro exI [of _ ps] conjI)
qed

lemma category_loop_steps:
  "\<exists>ps. steps w (snd (category_loop net parent d g pages cats acc w)) ps []
        \<and> (\<forall>p \<in> set ps. is_search_query p \<and> \<not> is_product_query p
               \<and> field_of ''refinements'' p \<in> category_refinement ` set cats)"
proof (induction cats arbitrary: acc w)
  case Nil
  show ?case by (rule exI [of _ "[]"]) (simp add: steps_refl)
next
  case (Cons category rest)
  show ?case
  proof (cases "map_of parent ''title''")
    case None
    then have stop: "category_loop net parent d g pages (category # rest) acc w = (Inl KeyError, w)"
      by simp
    show ?thesis
      unfolding stop by (rule exI [of _ "[]"]) (simp add: steps_refl)
  next
    case (Some t)
    obtain r w1 where run: "search_competitors net t d (Some [category]) pages g w = (r, w1)"
      by (cases "search_competitors net t d (Some [category]) pages g w")
    from search_competitors_steps [of w net t d "Some [category]" pages g] obtain ps where
      ps1: "steps w w1 ps []"
      and ps2: "\<forall>p \<in> set ps. \<exists>t s n. p = search_payload t d (Some [category]) g s n"
      unfolding run by (elim exE conjE) simp
    have ps3: "\<forall>p \<in> set ps. is_search_query p \<and> \<not> is_product_query p
                 \<and> field_of ''refinements'' p = category_refinement category"
    proof (intro ballI)
      fix p
      assume "p \<in> set ps"
      with ps2 obtain t' s n where p: "p = search_payload t' d (Some [category]) g s n"
        by blast
      show "is_search_query p \<and> \<not> is_product_query p
                 \<and> field_of ''refinements'' p = category_refinement category"
        unfolding p category_refinement_def by (rule search_payload_fields)
    qed
    show ?thesis
    proof (cases r)
      case (Inl e)
      have stop: "category_loop net parent d g pages (category # rest) acc w = (Inl e, w1)"
        by (simp add: Some run Inl)
      show ?thesis
        unfolding stop by (rule exI [of _ ps]) (use ps1 ps3 in simp)
    next
      case (Inr found)
      have step: "category_loop net parent d g pages (category # rest) acc w
                    = category_loop net parent d g pages rest (acc @ found) w1"
        by (simp add: Some run Inr)
      from Cons.IH [of w1 "acc @ found"] obtain qs where
        qs1: "steps w1 (snd (category_loop net parent d g pages rest (acc @ found) w1)) qs []"
        and qs2: "\<forall>p \<in> set qs. is_search_query p \<and> \<not> is_product_query p
               \<and> field_of ''refinements'' p \<in> category_refinement ` set rest"
        by (elim exE conjE)
      from steps_trans [OF ps1 qs1]
      have all: "steps w (snd (category_loop net parent d g pages rest (acc @ found) w1))
                   (ps @ qs) []"
        by simp
      have each: "\<forall>p \<in> set (ps @ qs). is_search_query p \<and> \<not> is_product_query p
               \<and> field_of ''refinements'' p \<in> category_refinement ` set (category # rest)"
        using ps3 qs2 by auto
      show ?thesis
        unfolding step by (rule exI [of _ "ps @ qs"]) (use all each in simp)
    qed
  qed
qed

lemma scrape_product_details_world:
  "snd (scrape_product_details net a g d w) = emit (Posted (product_payload a g d)) w"
  by (simp add: scrape_product_details_def post_query_def Let_def split: sum.splits)

lemma scrape_loop_steps:
  "steps w (snd (scrape_loop net g d asins acc w)) (map (\<lambda>a. product_payload a g d) asins) []"
proof (induction asins arbitrary: acc w)
  case Nil
  show ?case by (simp add: steps_refl)
next
  case (Cons a rest)
  let ?w1 = "emit (Posted (product_payload a g d)) w"
  obtain r w1 where run: "scrape_product_details net a g d w = (r, w1)"
    by (cases "scrape_product_details net a g d w")
  from scrape_product_details_world [of net a g d w] have w1: "w1 = ?w1"
    by (simp add: run)
  have first: "steps w ?w1 [product_payload a g d] []"
    by (rule steps_emit_Posted)
  show ?case
  proof (cases r)
    case (Inl e)
    have step: "scrape_loop net g d (a # rest) acc w = scrape_loop net g d rest acc ?w1"
      using run w1 by (simp add: Inl)
    from steps_trans [OF first Cons.IH [of ?w1 acc]]
    show ?thesis unfolding step by simp
  next
    case (Inr product)
    have step: "scrape_loop net g d (a # rest) acc w
                  = scrape_loop net g d rest (acc @ [product]) (pause ?w1)"
      using run w1 by (simp add: Inr)
    from steps_trans [OF first steps_pause]
    have "steps w (pause ?w1) [product_payload a g d] []" by simp
    from steps_trans [OF this Cons.IH [of "pause ?w1" "acc @ [product]"]]
    show ?thesis unfolding step by simp
  qed
qed

lemma store_competitors_steps:
  "fst (store_competitors P rs acc w) = acc @ map (\<lambda>r. dict_set r ''parent_asin'' (JStr P)) rs
   \<and> steps w (snd (store_competitors P rs acc w)) []
        (map (\<lambda>r. dict_set r ''parent_asin'' (JStr P)) rs)"
proof (induction rs arbitrary: acc w)
  case Nil
  show ?case by (simp add: steps_refl)
next
  case (Cons r rest)
  let ?r1 = "dict_set r ''parent_asin'' (JStr P)"
  let ?w1 = "snd (insert_product ?r1 w)"
  have step: "store_competitors P (r # rest) acc w = store_competitors P rest (acc @ [?r1]) ?w1"
    by (simp add: Let_def split: prod.splits)
  note ih = Cons.IH [of "acc @ [?r1]" ?w1]
  note a = ih [THEN conjunct1]
  note b = ih [THEN conjunct2]
  from steps_trans [OF steps_insert [of w ?r1] b]
  have c: "steps w (snd (store_competitors P rest (acc @ [?r1]) ?w1)) []
             (?r1 # map (\<lambda>r. dict_set r ''parent_asin'' (JStr P)) rest)"
    by simp
  show ?case unfolding step using a c by simp
qed

lemma answered_shift:
  assumes "answered net (b @ e1) es p raw"
  shows "answered net b (e1 @ es @ e2) p raw"
proof -
  from assms obtain pre post where es: "es = pre @ Posted p # post"
    and net: "net ((b @ e1) @ pre) p = Inr raw"
    unfolding answered_def by (elim exE conjE)
  have a: "e1 @ es @ e2 = (e1 @ pre) @ Posted p # (post @ e2)"
    by (simp add: es)
  have b: "net (b @ (e1 @ pre)) p = Inr raw"
    using net by simp
  show ?thesis
    unfolding answered_def
    by (rule exI [of _ "e1 @ pre"], rule exI [of _ "post @ e2"], rule conjI, rule a, rule b)
qed

lemma fetched_for_shift:
  assumes "fetched_for net (b @ e1) es p a r"
  shows "fetched_for net b (e1 @ es @ e2) p a r"
  using assms unfolding fetched_for_def
  by (elim disjE exE conjE) (blast intro: answered_shift)+

lemma py_eq_JStr: "py_eq a (JStr s) = (a = JStr s)"
  by (cases a) auto

lemma competitor_asins_exclude_parent:
  assumes "\<forall>xs. set (asin_order xs) \<subseteq> set xs"
    and "a \<in> set (competitor_asins asin_order P found)"
  shows "a \<noteq> JStr P"
proof -
  let ?xs = "filter (\<lambda>a. truthy a \<and> \<not> py_eq a (JStr P)) (map (\<lambda>r. dict_get r ''asin'') found)"
  from assms(2) have "a \<in> set (asin_order ?xs)"
    by (simp add: competitor_asins_def)
  with assms(1) have "a \<in> set ?xs"
    by (meson subsetD)
  then have "\<not> py_eq a (JStr P)"
    by simp
  then show ?thesis
    by (simp add: py_eq_JStr)
qed

lemma asin_of_set_parent: "asin_of (dict_set r ''parent_asin'' v) = asin_of r"
  by (simp add: asin_of_def dict_get_dict_set)

lemma parent_of_set_parent: "parent_of (dict_set r ''parent_asin'' v) = v"
  by (simp add: parent_of_def dict_get_dict_set)

lemma fetched_for_set_parent:
  "fetched_for net b es p a (dict_set r ''parent_asin'' v) = fetched_for net b es p a r"
  by (simp add: fetched_for_def asin_of_set_parent)

lemma product_payload_requested:
  "is_product_query (product_payload a g d) \<and> requested_asin (product_payload a g d) = a"
  by (simp add: requested_asin_def product_payload_fields)

lemma scrape_fetched_for:
  assumes "scrape_product_details net a g d w = (Inr r, w')"
  shows "fetched_for net (events w) (Posted (product_payload a g d) # post)
           (product_payload a g d) a r"
proof -
  let ?p = "product_payload a g d"
  from scrape_product_details_Inr [OF assms] obtain raw c where
    raw: "net (events w) ?p = Inr raw"
    and c: "extract_content raw = JDict c"
    and m: "map_of r ''asin'' = Some (if truthy (dict_get c ''asin'') then dict_get c ''asin'' else a)"
    by (elim exE conjE)
  from m have r: "asin_of r = (if truthy (asin_of c) then asin_of c else a)"
    by (simp add: asin_of_def dict_get_def)
  show ?thesis
  proof (cases "truthy (asin_of c)")
    case True
    with r have eq: "asin_of c = asin_of r" by simp
    have ans: "answered net (events w) (Posted ?p # post) ?p raw"
      unfolding answered_def
      by (rule exI [of _ "[]"], rule exI [of _ post]) (simp add: raw)
    have "\<exists>raw c. answered net (events w) (Posted ?p # post) ?p raw
             \<and> extract_content raw = JDict c \<and> asin_of c = asin_of r"
      by (rule exI [of _ raw], rule exI [of _ c], intro conjI, rule ans, rule c, rule eq)
    then show ?thesis
      unfolding fetched_for_def by (rule disjI2)
  next
    case False
    with r have "asin_of r = a" by simp
    then show ?thesis
      unfolding fetched_for_def by (rule disjI1)
  qed
qed

lemma scrape_loop_run:
  "\<exists>es. events (snd (scrape_loop net g d asins acc w)) = events w @ es
        \<and> posted es = map (\<lambda>a. product_payload a g d) asins
        \<and> inserted es = []
        \<and> (\<forall>r \<in> set (successes (attempts net g d asins w)).
              \<exists>a \<in> set asins. fetched_for net (events w) es (product_payload a g d) a r)"
proof (induction asins arbitrary: acc w)
  case Nil
  show ?case by (rule exI [of _ "[]"]) simp
next
  case (Cons a rest)
  let ?p = "product_payload a g d"
  let ?w1 = "emit (Posted ?p) w"
  obtain res w1 where run: "scrape_product_details net a g d w = (res, w1)"
    by (cases "scrape_product_details net a g d w")
  from scrape_product_details_world [of net a g d w] have w1: "w1 = ?w1"
    by (simp add: run)
  show ?case
  proof (cases res)
    case (Inl e)
    have step: "scrape_loop net g d (a # rest) acc w = scrape_loop net g d rest acc ?w1"
      using run w1 by (simp add: Inl)
    have att: "successes (attempts net g d (a # rest) w) = successes (attempts net g d rest ?w1)"
      using run w1 by (simp add: Inl)
    have ev1: "events ?w1 = events w @ [Posted ?p]"
      by (simp add: emit_def)
    from Cons.IH [of acc ?w1] obtain es where
      e1: "events (snd (scrape_loop net g d rest acc ?w1)) = events ?w1 @ es"
      and e2: "posted es = map (\<lambda>a. product_payload a g d) rest"
      and e3: "inserted es = []"
      and e4: "\<forall>r \<in> set (successes (attempts net g d rest ?w1)).
              \<exists>a \<in> set rest. fetched_for net (events ?w1) es (product_payload a g d) a r"
      by (elim exE conjE)
    let ?es = "[Posted ?p] @ es @ []"
    have f1: "events (snd (scrape_loop net g d rest acc ?w1)) = events w @ ?es"
      by (simp add: e1 ev1)
    have f2: "posted ?es = map (\<lambda>a. product_payload a g d) (a # rest)"
      by (simp add: e2)
    have f3: "inserted ?es = []"
      by (simp add: e3)
    have f4: "\<forall>r \<in> set (successes (attempts net g d rest ?w1)).
              \<exists>a' \<in> set (a # rest). fetched_for net (events w) ?es (product_payload a' g d) a' r"
    proof (intro ballI)
      fix r
      assume "r \<in> set (successes (attempts net g d rest ?w1))"
      with e4 obtain a' where a': "a' \<in> set rest"
        and ff: "fetched_for net (events w @ [Posted ?p]) es (product_payload a' g d) a' r"
        unfolding ev1 by blast
      from fetched_for_shift [OF ff, of "[]"] a'
      show "\<exists>a' \<in> set (a # rest). fetched_for net (events w) ?es (product_payload a' g d) a' r"
        by auto
    qed
    show ?thesis
      unfolding step att
      by (rule exI [of _ ?es], intro conjI, rule f1, rule f2, rule f3, rule f4)
  next
    case (Inr product)
    let ?w2 = "pause ?w1"
    have step: "scrape_loop net g d (a # rest) acc w
                  = scrape_loop net g d rest (acc @ [product]) ?w2"
      using run w1 by (simp add: Inr)
    have att: "successes (attempts net g d (a # rest) w)
                 = product # successes (attempts net g d rest ?w2)"
      using run w1 by (simp add: Inr)
    have ev2: "events ?w2 = events w @ [Posted ?p, Slept 300]"
      by (simp add: emit_def pause_def)
    from Cons.IH [of "acc @ [product]" ?w2] obtain es where
      e1: "events (snd (scrape_loop net g d rest (acc @ [product]) ?w2)) = events ?w2 @ es"
      and e2: "posted es = map (\<lambda>a. product_payload a g d) rest"
      and e3: "inserted es = []"
      and e4: "\<forall>r \<in> set (successes (attempts net g d rest ?w2)).
              \<exists>a \<in> set rest. fetched_for net (events ?w2) es (product_payload a g d) a r"
      by (elim exE conjE)
    let ?es = "[Posted ?p, Slept 300] @ es @ []"
    have f1: "events (snd (scrape_loop net g d rest (acc @ [product]) ?w2)) = events w @ ?es"
      by (simp add: e1 ev2)
    have f2: "posted ?es = map (\<lambda>a. product_payload a g d) (a # rest)"
      by (simp add: e2)
    have f3: "inserted ?es = []"
      by (simp add: e3)
    from run Inr have "scrape_product_details net a g d w = (Inr product, w1)"
      by simp
    from scrape_fetched_for [OF this, of "Slept 300 # es"]
    have here: "fetched_for net (events w) ?es ?p a product"
      by simp
    have f4: "\<forall>r \<in> set (product # successes (attempts net g d rest ?w2)).
              \<exists>a' \<in> set (a # rest). fetched_for net (events w) ?es (product_payload a' g d) a' r"
    proof (intro ballI)
      fix r
      assume "r \<in> set (product # successes (attempts net g d rest ?w2))"
      then consider "r = product" | "r \<in> set (successes (attempts net g d rest ?w2))"
        by auto
      then show "\<exists>a' \<in> set (a # rest). fetched_for net (events w) ?es (product_payload a' g d) a' r"
      proof cases
        case 1
        with here show ?thesis by auto
      next
        case 2
        with e4 obtain a' where a': "a' \<in> set rest"
          and ff: "fetched_for net (events w @ [Posted ?p, Slept 300]) es
                     (product_payload a' g d) a' r"
          unfolding ev2 by blast
        from fetched_for_shift [OF ff, of "[]"] a' show ?thesis
          by auto
      qed
    qed
    show ?thesis
      unfolding step att
      by (rule exI [of _ ?es], intro conjI, rule f1, rule f2, rule f3, rule f4)
  qed
qed

lemma bounded_run_trivial:
  assumes "steps w w' ps []"
    and "\<forall>p \<in> set ps. is_search_query p \<and> \<not> is_product_query p
               \<and> field_of ''refinements'' p \<in> category_refinement ` set cats"
    and "length cats \<le> 3"
    and "res = Inr [] \<or> (\<exists>e. res = Inl e)"
  shows "bounded_run net asin_order P w res w'"
proof -
  from assms(1) obtain es where ev: "events w' = events w @ es"
    and po: "posted es = ps" and ins: "inserted es = []"
    unfolding steps_def by (elim exE conjE)
  have po': "posted es = ps @ map (\<lambda>a. product_payload a JNull JNull) []"
    by (simp add: po)
  from assms(4) have rs: "\<forall>rs. res = Inr rs \<longrightarrow> inserted es = rs"
    by (auto simp: ins)
  have len: "length ([] :: json list) \<le> 20" by simp
  have mem: "\<forall>a \<in> set ([] :: json list). \<exists>found. a \<in> set (competitor_asins asin_order P found)"
    by simp
  have stored: "\<forall>r \<in> set (inserted es). parent_of r = JStr P
               \<and> (\<exists>a \<in> set ([] :: json list).
                     fetched_for net (events w) es (product_payload a JNull JNull) a r)"
    by (simp add: ins)
  show ?thesis
    unfolding bounded_run_def
    by (rule exI [of _ es], rule exI [of _ ps], rule exI [of _ cats], rule exI [of _ "[]"],
        rule exI [of _ JNull], rule exI [of _ JNull], intro conjI, rule ev, rule po',
        rule assms(3), rule assms(2), rule len, rule mem, rule rs, rule stored)
qed

lemma fetch_bounded_run:
  "bounded_run net asin_order P w
     (fst (fetch_and_store_competitors str_of cat_order asin_order net P domain geo pages w))
     (snd (fetch_and_store_competitors str_of cat_order asin_order net P domain geo pages w))"
proof -
  let ?F = "fetch_and_store_competitors str_of cat_order asin_order net P domain geo pages w"
  let ?w1 = "emit StoreRead w"
  let ?setp = "\<lambda>r. dict_set r ''parent_asin'' (JStr P)"
  obtain po where gp: "get_product P w = (po, ?w1)"
    by (simp add: get_product_def)
  have s0: "steps w ?w1 [] []"
    by (rule steps_emit_StoreRead)
  have none: "\<forall>p \<in> set ([] :: json list). is_search_query p \<and> \<not> is_product_query p
               \<and> field_of ''refinements'' p \<in> category_refinement ` set ([] :: string list)"
    by simp
  have l0: "length ([] :: string list) \<le> 3" by simp
  show ?thesis
  proof (cases "po = None \<or> po = Some []")
    case True
    then have F: "?F = (Inr [], ?w1)"
      by (auto simp: fetch_and_store_competitors_def gp)
    show ?thesis
      unfolding F fst_conv snd_conv
      by (rule bounded_run_trivial [OF s0 none l0]) simp
  next
    case False
    then obtain parent where po: "po = Some parent" and ne: "parent \<noteq> []"
      by (cases po) auto
    let ?sd = "dict_get_default parent ''amazon_domain'' domain"
    let ?sg = "dict_get_default parent ''geo_location'' geo"
    show ?thesis
    proof (cases "candidate_categories str_of cat_order parent")
      case (Inl e)
      have F: "?F = (Inl e, ?w1)"
        by (simp add: fetch_and_store_competitors_def gp po ne Inl Let_def)
      show ?thesis
        unfolding F fst_conv snd_conv
        by (rule bounded_run_trivial [OF s0 none l0]) simp
    next
      case (Inr cats)
      obtain r2 w2 where cl:
        "category_loop net parent ?sd ?sg pages (take 3 cats) [] ?w1 = (r2, w2)"
        by (cases "category_loop net parent ?sd ?sg pages (take 3 cats) [] ?w1")
      from category_loop_steps [of ?w1 net parent ?sd ?sg pages "take 3 cats" "[]"] obtain ps where
        ps1: "steps ?w1 w2 ps []"
        and ps2: "\<forall>p \<in> set ps. is_search_query p \<and> \<not> is_product_query p
               \<and> field_of ''refinements'' p \<in> category_refinement ` set (take 3 cats)"
        unfolding cl by (elim exE conjE) simp
      from steps_trans [OF s0 ps1] have s2: "steps w w2 ps []"
        by simp
      have l3: "length (take 3 cats) \<le> 3" by simp
      show ?thesis
      proof (cases r2)
        case (Inl e)
        have F: "?F = (Inl e, w2)"
          by (simp add: fetch_and_store_competitors_def gp po ne Inr cl Inl Let_def)
        show ?thesis
          unfolding F fst_conv snd_conv
          by (rule bounded_run_trivial [OF s2 ps2 l3]) simp
      next
        case found: (Inr found)
        let ?asins = "take 20 (competitor_asins asin_order P found)"
        let ?pd = "fst (scrape_loop net ?sg ?sd ?asins [] w2)"
        let ?w3 = "snd (scrape_loop net ?sg ?sd ?asins [] w2)"
        let ?st = "fst (store_competitors P ?pd [] ?w3)"
        let ?w4 = "snd (store_competitors P ?pd [] ?w3)"
        let ?res = "case display_summary ?st of Inl e \<Rightarrow> Inl e | Inr u \<Rightarrow> Inr ?st"
        have F: "?F = (?res, ?w4)"
          by (simp add: fetch_and_store_competitors_def gp po ne Inr cl found Let_def
              scrape_multiple_products_def split: prod.splits sum.splits)
        have pd: "?pd = successes (attempts net ?sg ?sd ?asins w2)"
          using scrape_loop_successes [of net ?sg ?sd ?asins "[]" w2] by simp
        have st: "?st = map ?setp ?pd"
          using store_competitors_steps [of P ?pd "[]" ?w3] by simp
        from s2 obtain e12 where a1: "events w2 = events w @ e12"
          and a2: "posted e12 = ps" and a3: "inserted e12 = []"
          unfolding steps_def by (elim exE conjE)
        from scrape_loop_run [of net ?sg ?sd ?asins "[]" w2] obtain e3 where
          b1: "events ?w3 = events w2 @ e3"
          and b2: "posted e3 = map (\<lambda>a. product_payload a ?sg ?sd) ?asins"
          and b3: "inserted e3 = []"
          and b4: "\<forall>r \<in> set (successes (attempts net ?sg ?sd ?asins w2)).
              \<exists>a \<in> set ?asins. fetched_for net (events w2) e3 (product_payload a ?sg ?sd) a r"
          by (elim exE conjE)
        from store_competitors_steps [of P ?pd "[]" ?w3, THEN conjunct2] obtain e4 where
          c1: "events ?w4 = events ?w3 @ e4"
          and c2: "posted e4 = []" and c3: "inserted e4 = map ?setp ?pd"
          unfolding steps_def by (elim exE conjE)
        let ?es = "e12 @ e3 @ e4"
        have ev: "events ?w4 = events w @ ?es"
          by (simp add: c1 b1 a1)
        have pst: "posted ?es = ps @ map (\<lambda>a. product_payload a ?sg ?sd) ?asins"
          by (simp add: posted_append a2 b2 c2)
        have ins: "inserted ?es = map ?setp ?pd"
          by (simp add: inserted_append a3 b3 c3)
        have len: "length ?asins \<le> 20" by simp
        have mem: "\<forall>a \<in> set ?asins. \<exists>found. a \<in> set (competitor_asins asin_order P found)"
          by (meson in_set_takeD)
        have rs: "\<forall>rs. ?res = Inr rs \<longrightarrow> inserted ?es = rs"
          by (simp add: ins st split: sum.splits)
        have stored: "\<forall>r \<in> set (inserted ?es). parent_of r = JStr P
               \<and> (\<exists>a \<in> set ?asins.
                     fetched_for net (events w) ?es (product_payload a ?sg ?sd) a r)"
        proof (intro ballI)
          fix r
          assume "r \<in> set (inserted ?es)"
          with ins pd obtain q where q: "q \<in> set (successes (attempts net ?sg ?sd ?asins w2))"
            and rq: "r = ?setp q"
            by auto
          from b4 q obtain a where a: "a \<in> set ?asins"
            and ff: "fetched_for net (events w @ e12) e3 (product_payload a ?sg ?sd) a q"
            unfolding a1 by blast
          from fetched_for_shift [OF ff, of e4]
          have "fetched_for net (events w) ?es (product_payload a ?sg ?sd) a r"
            by (simp add: rq fetched_for_set_parent)
          with a have "\<exists>a \<in> set ?asins.
                     fetched_for net (events w) ?es (product_payload a ?sg ?sd) a r"
            by (rule bexI [rotated])
          moreover have "parent_of r = JStr P"
            by (simp add: rq parent_of_set_parent)
          ultimately show "parent_of r = JStr P
               \<and> (\<exists>a \<in> set ?asins.
                     fetched_for net (events w) ?es (product_payload a ?sg ?sd) a r)"
            by (intro conjI)
        qed
        show ?thesis
          unfolding F fst_conv snd_conv bounded_run_def
          by (rule exI [of _ ?es], rule exI [of _ ps], rule exI [of _ "take 3 cats"],
              rule exI [of _ ?asins], rule exI [of _ ?sd], rule exI [of _ ?sg], intro conjI,
              rule ev, rule pst, rule l3, rule ps2, rule len, rule mem, rule rs, rule stored)
      qed
    qed
  qed
qed

text \<open>
  C1. Whatever the parent record, the answers of the scraping API and the page count are,
  a run of the competitor workflow submits product-detail queries for at most 20
  candidates, and its search queries carry at most 3 different category refinements: the
  searches are made for at most 3 candidate categories.
\<close>

theorem fetch_and_store_competitors_volume_bounded:
  "\<exists>es. events (snd (fetch_and_store_competitors str_of cat_order asin_order net P domain geo
                       pages w)) = events w @ es
        \<and> length (filter is_product_query (posted es)) \<le> 20
        \<and> card (field_of ''refinements'' ` {p \<in> set (posted es). is_search_query p}) \<le> 3"
proof -
  let ?F = "fetch_and_store_competitors str_of cat_order asin_order net P domain geo pages w"
  from fetch_bounded_run [of net asin_order P w str_of cat_order domain geo pages]
  obtain ps cats asins sd sg es where
    ev: "events (snd ?F) = events w @ es"
    and po: "posted es = ps @ map (\<lambda>a. product_payload a sg sd) asins"
    and cats: "length cats \<le> 3"
    and ps: "\<forall>p \<in> set ps. is_search_query p \<and> \<not> is_product_query p
               \<and> field_of ''refinements'' p \<in> category_refinement ` set cats"
    and asins: "length asins \<le> 20"
    unfolding bounded_run_def by (elim exE conjE)
  have f1: "filter is_product_query ps = []"
    using ps by (simp add: filter_empty_conv)
  have f2: "filter is_product_query (map (\<lambda>a. product_payload a sg sd) asins)
              = map (\<lambda>a. product_payload a sg sd) asins"
    by (simp add: filter_id_conv product_payload_fields)
  have products: "length (filter is_product_query (posted es)) \<le> 20"
    using asins by (simp add: po f1 f2)
  have "{p \<in> set (posted es). is_search_query p} \<subseteq> set ps"
    by (auto simp: po product_payload_fields)
  then have "field_of ''refinements'' ` {p \<in> set (posted es). is_search_query p}
               \<subseteq> category_refinement ` set cats"
    using ps by (meson image_subsetI subsetD Collect_mem_eq)
  then have "card (field_of ''refinements'' ` {p \<in> set (posted es). is_search_query p})
               \<le> card (category_refinement ` set cats)"
    by (simp add: card_mono)
  also have "\<dots> \<le> card (set cats)"
    by (simp add: card_image_le)
  also have "\<dots> \<le> length cats"
    by (rule card_length)
  finally have searches:
    "card (field_of ''refinements'' ` {p \<in> set (posted es). is_search_query p}) \<le> 3"
    using cats by simp
  show ?thesis
    by (rule exI [of _ es], intro conjI, rule ev, rule products, rule searches)
qed

text \<open>
  C2, as the code has it. The list of candidate ASINs never holds the parent's ASIN \<open>P\<close>,
  whatever the hits are, so no product-detail query of the run asks for \<open>P\<close>. A run that
  returns, returns the records it has inserted, and every record inserted has
  \<open>parent_asin\<close> equal to \<open>P\<close>. The \<open>asin\<close> of an inserted record is the one its response
  reports, or the candidate asked for when the response reports none: it is \<open>P\<close> only
  when, in this run, a product query for another ASIN was submitted and the answer it got
  then has a content that reports \<open>P\<close>. The order in which \<open>list(set(...))\<close> lists the
  candidates is any order that lists nothing but the elements given.
\<close>

theorem fetch_and_store_competitors_excludes_parent:
  assumes order: "\<forall>xs. set (asin_order xs) \<subseteq> set xs"
  shows "JStr P \<notin> set (competitor_asins asin_order P found)
     \<and> (\<exists>es. events (snd (fetch_and_store_competitors str_of cat_order asin_order net P domain geo
                       pages w)) = events w @ es
        \<and> (\<forall>p \<in> set (posted es). is_product_query p \<longrightarrow> requested_asin p \<noteq> JStr P)
        \<and> (\<forall>rs. fst (fetch_and_store_competitors str_of cat_order asin_order net P domain geo
                       pages w) = Inr rs \<longrightarrow> inserted es = rs)
        \<and> (\<forall>r \<in> set (inserted es). parent_of r = JStr P
              \<and> (asin_of r = JStr P \<longrightarrow>
                   (\<exists>p raw c. answered net (events w) es p raw \<and> is_product_query p
                       \<and> requested_asin p \<noteq> JStr P
                       \<and> extract_content raw = JDict c \<and> asin_of c = JStr P))))"
proof (rule conjI)
  show "JStr P \<notin> set (competitor_asins asin_order P found)"
    using competitor_asins_exclude_parent [OF order] by blast
  let ?F = "fetch_and_store_competitors str_of cat_order asin_order net P domain geo pages w"
  from fetch_bounded_run [of net asin_order P w str_of cat_order domain geo pages]
  obtain ps cats asins sd sg es where
    ev: "events (snd ?F) = events w @ es"
    and po: "posted es = ps @ map (\<lambda>a. product_payload a sg sd) asins"
    and ps: "\<forall>p \<in> set ps. is_search_query p \<and> \<not> is_product_query p
               \<and> field_of ''refinements'' p \<in> category_refinement ` set cats"
    and mem: "\<forall>a \<in> set asins. \<exists>found. a \<in> set (competitor_asins asin_order P found)"
    and returned: "\<forall>rs. fst ?F = Inr rs \<longrightarrow> inserted es = rs"
    and st: "\<forall>r \<in> set (inserted es). parent_of r = JStr P
               \<and> (\<exists>a \<in> set asins. fetched_for net (events w) es (product_payload a sg sd) a r)"
    unfolding bounded_run_def by (elim exE conjE)
  have cand: "a \<noteq> JStr P" if "a \<in> set asins" for a
    using that mem competitor_asins_exclude_parent [OF order] by blast
  have queries: "\<forall>p \<in> set (posted es). is_product_query p \<longrightarrow> requested_asin p \<noteq> JStr P"
  proof (intro ballI impI)
    fix p
    assume p: "p \<in> set (posted es)" and prod: "is_product_query p"
    from p po have "p \<in> set ps \<or> p \<in> (\<lambda>a. product_payload a sg sd) ` set asins"
      by auto
    with ps prod obtain a where a: "a \<in> set asins" and pa: "p = product_payload a sg sd"
      by blast
    from cand [OF a] show "requested_asin p \<noteq> JStr P"
      by (simp add: pa product_payload_requested)
  qed
  have stored: "\<forall>r \<in> set (inserted es). parent_of r = JStr P
              \<and> (asin_of r = JStr P \<longrightarrow>
                   (\<exists>p raw c. answered net (events w) es p raw \<and> is_product_query p
                       \<and> requested_asin p \<noteq> JStr P
                       \<and> extract_content raw = JDict c \<and> asin_of c = JStr P))"
  proof (intro ballI)
    fix r
    assume r: "r \<in> set (inserted es)"
    with st obtain a where par: "parent_of r = JStr P" and a: "a \<in> set asins"
      and far: "fetched_for net (events w) es (product_payload a sg sd) a r"
      by blast
    have rep: "\<exists>p raw c. answered net (events w) es p raw \<and> is_product_query p
                       \<and> requested_asin p \<noteq> JStr P
                       \<and> extract_content raw = JDict c \<and> asin_of c = JStr P"
      if eq: "asin_of r = JStr P"
    proof -
      from far cand [OF a] eq obtain raw c where
        ans: "answered net (events w) es (product_payload a sg sd) raw"
        and c: "extract_content raw = JDict c" and ac: "asin_of c = asin_of r"
        unfolding fetched_for_def by blast
      have q: "is_product_query (product_payload a sg sd)"
        by (rule product_payload_requested [THEN conjunct1])
      have ra: "requested_asin (product_payload a sg sd) \<noteq> JStr P"
        using cand [OF a] by (simp add: product_payload_requested)
      have acp: "asin_of c = JStr P"
        using ac eq by simp
      show ?thesis
        by (rule exI [of _ "product_payload a sg sd"], rule exI [of _ raw], rule exI [of _ c],
            intro conjI, rule ans, rule q, rule ra, rule c, rule acp)
    qed
    from par rep show "parent_of r = JStr P
              \<and> (asin_of r = JStr P \<longrightarrow>
                   (\<exists>p raw c. answered net (events w) es p raw \<and> is_product_query p
                       \<and> requested_asin p \<noteq> JStr P
                       \<and> extract_content raw = JDict c \<and> asin_of c = JStr P))"
      by blast
  qed
  show "\<exists>es. events (snd ?F) = events w @ es
        \<and> (\<forall>p \<in> set (posted es). is_product_query p \<longrightarrow> requested_asin p \<noteq> JStr P)
        \<and> (\<forall>rs. fst ?F = Inr rs \<longrightarrow> inserted es = rs)
        \<and> (\<forall>r \<in> set (inserted es). parent_of r = JStr P
              \<and> (asin_of r = JStr P \<longrightarrow>
                   (\<exists>p raw c. answered net (events w) es p raw \<and> is_product_query p
                       \<and> requested_asin p \<noteq> JStr P
                       \<and> extract_content raw = JDict c \<and> asin_of c = JStr P)))"
    by (rule exI [of _ es], intro conjI, rule ev, rule queries, rule returned, rule stored)
qed

text \<open>
  A parent with five categories and a sweep that finds 22 candidates: four searches for each
  of the first three categories, then product queries for the first twenty candidates.
\<close>

theorem fetch_and_store_competitors_volume_bounded_witness:
  "map (\<lambda>p. if is_search_query p then field_of ''refinements'' p else requested_asin p)
    (posted (events (snd (fetch_and_store_competitors (\<lambda>v. []) remdups remdups
      (\<lambda>h p. if is_search_query p
        then (if field_of ''sort_by'' p = JStr ''featured'' \<and> field_of ''refinements'' p = category_refinement ''Mice''
              then Inr (JDict [(''content'', JDict [(''products'', JList [JDict [(''asin'', JStr ''C01''), (''title'', JStr ''Item'')], JDict [(''asin'', JStr ''C02''), (''title'', JStr ''Item'')], JDict [(''asin'', JStr ''C03''), (''title'', JStr ''Item'')], JDict [(''asin'', JStr ''C04''), (''title'', JStr ''Item'')], JDict [(''asin'', JStr ''C05''), (''title'', JStr ''Item'')], JDict [(''asin'', JStr ''C06''), (''title'', JStr ''Item'')], JDict [(''asin'', JStr ''C07''), (''title'', JStr ''Item'')], JDict [(''asin'', JStr ''C08''), (''title'', JStr ''Item'')], JDict [(''asin'', JStr ''C09''), (''title'', JStr ''Item'')], JDict [(''asin'', JStr ''C10''), (''title'', JStr ''Item'')], JDict [(''asin'', JStr ''C11''), (''title'', JStr ''Item'')], JDict [(''asin'', JStr ''C12''), (''title'', JStr ''Item'')], JDict [(''asin'', JStr ''C13''), (''title'', JStr ''Item'')], JDict [(''asin'', JStr ''C14''), (''title'', JStr ''Item'')], JDict [(''asin'', JStr ''C15''), (''title'', JStr ''Item'')], JDict [(''asin'', JStr ''C16''), (''title'', JStr ''Item'')], JDict [(''asin'', JStr ''C17''), (''title'', JStr ''Item'')], JDict [(''asin'', JStr ''C18''), (''title'', JStr ''Item'')], JDict [(''asin'', JStr ''C19''), (''title'', JStr ''Item'')], JDict [(''asin'', JStr ''C20''), (''title'', JStr ''Item'')], JDict [(''asin'', JStr ''C21''), (''title'', JStr ''Item'')], JDict [(''asin'', JStr ''C22''), (''title'', JStr ''Item'')]])])])
              else Inr (JDict [(''content'', JNull)]))
        else Inr (JDict [(''content'', JDict [(''title'', JStr ''Item'')])]))
      ''B0PARENT01'' (JStr ''eg'') (JStr ''11511'') 1
      \<lparr>events = [], store = [[(''asin'', JStr ''B0PARENT01''), (''title'', JStr ''Mouse''),
        (''categories'', JList [JStr ''Mice'', JStr ''Keyboards'', JStr ''Pads'', JStr ''Cables'',
           JStr ''Hubs''])]]\<rparr>))))
  = [category_refinement ''Mice'',
     category_refinement ''Mice'',
     category_refinement ''Mice'',
     category_refinement ''Mice'',
     category_refinement ''Keyboards'',
     category_refinement ''Keyboards'',
     category_refinement ''Keyboards'',
     category_refinement ''Keyboards'',
     category_refinement ''Pads'',
     category_refinement ''Pads'',
     category_refinement ''Pads'',
     category_refinement ''Pads'',
     JStr ''C01'',
     JStr ''C02'',
     JStr ''C03'',
     JStr ''C04'',
     JStr ''C05'',
     JStr ''C06'',
     JStr ''C07'',
     JStr ''C08'',
     JStr ''C09'',
     JStr ''C10'',
     JStr ''C11'',
     JStr ''C12'',
     JStr ''C13'',
     JStr ''C14'',
     JStr ''C15'',
     JStr ''C16'',
     JStr ''C17'',
     JStr ''C18'',
     JStr ''C19'',
     JStr ''C20'']
   \<and> (\<exists>es. events (snd (fetch_and_store_competitors (\<lambda>v. []) remdups remdups
      (\<lambda>h p. if is_search_query p
        then (if field_of ''sort_by'' p = JStr ''featured'' \<and> field_of ''refinements'' p = category_refinement ''Mice''
              then Inr (JDict [(''content'', JDict [(''products'', JList [JDict [(''asin'', JStr ''C01''), (''title'', JStr ''Item'')], JDict [(''asin'', JStr ''C02''), (''title'', JStr ''Item'')], JDict [(''asin'', JStr ''C03''), (''title'', JStr ''Item'')], JDict [(''asin'', JStr ''C04''), (''title'', JStr ''Item'')], JDict [(''asin'', JStr ''C05''), (''title'', JStr ''Item'')], JDict [(''asin'', JStr ''C06''), (''title'', JStr ''Item'')], JDict [(''asin'', JStr ''C07''), (''title'', JStr ''Item'')], JDict [(''asin'', JStr ''C08''), (''title'', JStr ''Item'')], JDict [(''asin'', JStr ''C09''), (''title'', JStr ''Item'')], JDict [(''asin'', JStr ''C10''), (''title'', JStr ''Item'')], JDict [(''asin'', JStr ''C11''), (''title'', JStr ''Item'')], JDict [(''asin'', JStr ''C12''), (''title'', JStr ''Item'')], JDict [(''asin'', JStr ''C13''), (''title'', JStr ''Item'')], JDict [(''asin'', JStr ''C14''), (''title'', JStr ''Item'')], JDict [(''asin'', JStr ''C15''), (''title'', JStr ''Item'')], JDict [(''asin'', JStr ''C16''), (''title'', JStr ''Item'')], JDict [(''asin'', JStr ''C17''), (''title'', JStr ''Item'')], JDict [(''asin'', JStr ''C18''), (''title'', JStr ''Item'')], JDict [(''asin'', JStr ''C19''), (''title'', JStr ''Item'')], JDict [(''asin'', JStr ''C20''), (''title'', JStr ''Item'')], JDict [(''asin'', JStr ''C21''), (''title'', JStr ''Item'')], JDict [(''asin'', JStr ''C22''), (''title'', JStr ''Item'')]])])])
              else Inr (JDict [(''content'', JNull)]))
        else Inr (JDict [(''content'', JDict [(''title'', JStr ''Item'')])]))
      ''B0PARENT01'' (JStr ''eg'') (JStr ''11511'') 1
      \<lparr>events = [], store = [[(''asin'', JStr ''B0PARENT01''), (''title'', JStr ''Mouse''),
        (''categories'', JList [JStr ''Mice'', JStr ''Keyboards'', JStr ''Pads'', JStr ''Cables'',
           JStr ''Hubs''])]]\<rparr>)) = events \<lparr>events = [], store = [[(''asin'', JStr ''B0PARENT01''), (''title'', JStr ''Mouse''),
        (''categories'', JList [JStr ''Mice'', JStr ''Keyboards'', JStr ''Pads'', JStr ''Cables'',
           JStr ''Hubs''])]]\<rparr> @ es
        \<and> length (filter is_product_query (posted es)) \<le> 20
        \<and> card (field_of ''refinements'' ` {p \<in> set (posted es). is_search_query p}) \<le> 3)"
proof (rule conjI)
  show "map (\<lambda>p. if is_search_query p then field_of ''refinements'' p else requested_asin p)
    (posted (events (snd (fetch_and_store_competitors (\<lambda>v. []) remdups remdups
      (\<lambda>h p. if is_search_query p
        then (if field_of ''sort_by'' p = JStr ''featured'' \<and> field_of ''refinements'' p = category_refinement ''Mice''
              then Inr (JDict [(''content'', JDict [(''products'', JList [JDict [(''asin'', JStr ''C01''), (''title'', JStr ''Item'')], JDict [(''asin'', JStr ''C02''), (''title'', JStr ''Item'')], JDict [(''asin'', JStr ''C03''), (''title'', JStr ''Item'')], JDict [(''asin'', JStr ''C04''), (''title'', JStr ''Item'')], JDict [(''asin'', JStr ''C05''), (''title'', JStr ''Item'')], JDict [(''asin'', JStr ''C06''), (''title'', JStr ''Item'')], JDict [(''asin'', JStr ''C07''), (''title'', JStr ''Item'')], JDict [(''asin'', JStr ''C08''), (''title'', JStr ''Item'')], JDict [(''asin'', JStr ''C09''), (''title'', JStr ''Item'')], JDict [(''asin'', JStr ''C10''), (''title'', JStr ''Item'')], JDict [(''asin'', JStr ''C11''), (''title'', JStr ''Item'')], JDict [(''asin'', JStr ''C12''), (''title'', JStr ''Item'')], JDict [(''asin'', JStr ''C13''), (''title'', JStr ''Item'')], JDict [(''asin'', JStr ''C14''), (''title'', JStr ''Item'')], JDict [(''asin'', JStr ''C15''), (''title'', JStr ''Item'')], JDict [(''asin'', JStr ''C16''), (''title'', JStr ''Item'')], JDict [(''asin'', JStr ''C17''), (''title'', JStr ''Item'')], JDict [(''asin'', JStr ''C18''), (''title'', JStr ''Item'')], JDict [(''asin'', JStr ''C19''), (''title'', JStr ''Item'')], JDict [(''asin'', JStr ''C20''), (''title'', JStr ''Item'')], JDict [(''asin'', JStr ''C21''), (''title'', JStr ''Item'')], JDict [(''asin'', JStr ''C22''), (''title'', JStr ''Item'')]])])])
              else Inr (JDict [(''content'', JNull)]))
        else Inr (JDict [(''content'', JDict [(''title'', JStr ''Item'')])]))
      ''B0PARENT01'' (JStr ''eg'') (JStr ''11511'') 1
      \<lparr>events = [], store = [[(''asin'', JStr ''B0PARENT01''), (''title'', JStr ''Mouse''),
        (''categories'', JList [JStr ''Mice'', JStr ''Keyboards'', JStr ''Pads'', JStr ''Cables'',
           JStr ''Hubs''])]]\<rparr>))))
  = [category_refinement ''Mice'',
     category_refinement ''Mice'',
     category_refinement ''Mice'',
     category_refinement ''Mice'',
     category_refinement ''Keyboards'',
     category_refinement ''Keyboards'',
     category_refinement ''Keyboards'',
     category_refinement ''Keyboards'',
     category_refinement ''Pads'',
     category_refinement ''Pads'',
     category_refinement ''Pads'',
     category_refinement ''Pads'',
     JStr ''C01'',
     JStr ''C02'',
     JStr ''C03'',
     JStr ''C04'',
     JStr ''C05'',
     JStr ''C06'',
     JStr ''C07'',
     JStr ''C08'',
     JStr ''C09'',
     JStr ''C10'',
     JStr ''C11'',
     JStr ''C12'',
     JStr ''C13'',
     JStr ''C14'',
     JStr ''C15'',
     JStr ''C16'',
     JStr ''C17'',
     JStr ''C18'',
     JStr ''C19'',
     JStr ''C20'']"
    by (simp add: fetch_and_store_competitors_def get_product_def candidate_categories_def
      categories_from_def py_str_def competitor_asins_def insert_product_def
      scrape_multiple_products_def scrape_product_details_def post_query_def emit_def
      pause_def product_payload_def search_payload_def refinements_def field_of_def
      is_search_query_def is_product_query_def dict_get_def dict_get_default_def
      extract_content_def results_first_content_def py_or_def normalize_product_def
      category_path_of_def search_competitors_def clean_title_of_def clean_search_title_def
      starts_with_def py_strip_def space1_def space2_def space3_def strategies_def extract_search_results_def
      extend_from_def normalize_search_result_def asin_of_def parent_of_def requested_asin_def
      category_refinement_def Let_def)
  show "\<exists>es. events (snd (fetch_and_store_competitors (\<lambda>v. []) remdups remdups
      (\<lambda>h p. if is_search_query p
        then (if field_of ''sort_by'' p = JStr ''featured'' \<and> field_of ''refinements'' p = category_refinement ''Mice''
              then Inr (JDict [(''content'', JDict [(''products'', JList [JDict [(''asin'', JStr ''C01''), (''title'', JStr ''Item'')], JDict [(''asin'', JStr ''C02''), (''title'', JStr ''Item'')], JDict [(''asin'', JStr ''C03''), (''title'', JStr ''Item'')], JDict [(''asin'', JStr ''C04''), (''title'', JStr ''Item'')], JDict [(''asin'', JStr ''C05''), (''title'', JStr ''Item'')], JDict [(''asin'', JStr ''C06''), (''title'', JStr ''Item'')], JDict [(''asin'', JStr ''C07''), (''title'', JStr ''Item'')], JDict [(''asin'', JStr ''C08''), (''title'', JStr ''Item'')], JDict [(''asin'', JStr ''C09''), (''title'', JStr ''Item'')], JDict [(''asin'', JStr ''C10''), (''title'', JStr ''Item'')], JDict [(''asin'', JStr ''C11''), (''title'', JStr ''Item'')], JDict [(''asin'', JStr ''C12''), (''title'', JStr ''Item'')], JDict [(''asin'', JStr ''C13''), (''title'', JStr ''Item'')], JDict [(''asin'', JStr ''C14''), (''title'', JStr ''Item'')], JDict [(''asin'', JStr ''C15''), (''title'', JStr ''Item'')], JDict [(''asin'', JStr ''C16''), (''title'', JStr ''Item'')], JDict [(''asin'', JStr ''C17''), (''title'', JStr ''Item'')], JDict [(''asin'', JStr ''C18''), (''title'', JStr ''Item'')], JDict [(''asin'', JStr ''C19''), (''title'', JStr ''Item'')], JDict [(''asin'', JStr ''C20''), (''title'', JStr ''Item'')], JDict [(''asin'', JStr ''C21''), (''title'', JStr ''Item'')], JDict [(''asin'', JStr ''C22''), (''title'', JStr ''Item'')]])])])
              else Inr (JDict [(''content'', JNull)]))
        else Inr (JDict [(''content'', JDict [(''title'', JStr ''Item'')])]))
      ''B0PARENT01'' (JStr ''eg'') (JStr ''11511'') 1
      \<lparr>events = [], store = [[(''asin'', JStr ''B0PARENT01''), (''title'', JStr ''Mouse''),
        (''categories'', JList [JStr ''Mice'', JStr ''Keyboards'', JStr ''Pads'', JStr ''Cables'',
           JStr ''Hubs''])]]\<rparr>)) = events \<lparr>events = [], store = [[(''asin'', JStr ''B0PARENT01''), (''title'', JStr ''Mouse''),
        (''categories'', JList [JStr ''Mice'', JStr ''Keyboards'', JStr ''Pads'', JStr ''Cables'',
           JStr ''Hubs''])]]\<rparr> @ es
        \<and> length (filter is_product_query (posted es)) \<le> 20
        \<and> card (field_of ''refinements'' ` {p \<in> set (posted es). is_search_query p}) \<le> 3"
    by (rule fetch_and_store_competitors_volume_bounded)
qed

text \<open>
  A sweep that returns the parent itself and one other product, the product responses
  reporting no \<open>asin\<close>: the parent is no candidate and the one record stored carries the
  other product's ASIN.
\<close>

theorem fetch_and_store_competitors_excludes_parent_witness:
  "(\<forall>xs :: json list. set (remdups xs) \<subseteq> set xs)
   \<and> JStr ''B0PARENT01'' \<notin> set (competitor_asins remdups ''B0PARENT01''
       [[(''asin'', JStr ''B0PARENT01''), (''title'', JStr ''Mouse'')],
        [(''asin'', JStr ''B0OTHER002''), (''title'', JStr ''Other'')]])
   \<and> competitor_asins remdups ''B0PARENT01''
       [[(''asin'', JStr ''B0PARENT01''), (''title'', JStr ''Mouse'')],
        [(''asin'', JStr ''B0OTHER002''), (''title'', JStr ''Other'')]] = [JStr ''B0OTHER002'']
   \<and> map (\<lambda>r. (asin_of r, parent_of r)) (inserted (events (snd (fetch_and_store_competitors (\<lambda>v. []) remdups remdups
      (\<lambda>h p. if is_search_query p
        then Inr (JDict [(''results'', JList [JDict [(''content'',
               JDict [(''results'', JDict [(''organic'',
                 JList [JDict [(''asin'', JStr ''B0PARENT01''), (''title'', JStr ''Mouse'')],
                        JDict [(''asin'', JStr ''B0OTHER002''), (''title'', JStr ''Other'')]])])])]])])
        else Inr (JDict [(''content'', JDict [(''title'', JStr ''Mouse'')])]))
      ''B0PARENT01'' (JStr ''eg'') (JStr ''11511'') 1
      \<lparr>events = [], store = [[(''asin'', JStr ''B0PARENT01''), (''title'', JStr ''Mouse - wired''),
         (''categories'', JList [JStr ''Mice''])]]\<rparr>))))
       = [(JStr ''B0OTHER002'', JStr ''B0PARENT01'')]"
proof (intro conjI)
  show order: "\<forall>xs :: json list. set (remdups xs) \<subseteq> set xs"
    by simp
  from fetch_and_store_competitors_excludes_parent [OF order, THEN conjunct1]
  show "JStr ''B0PARENT01'' \<notin> set (competitor_asins remdups ''B0PARENT01''
       [[(''asin'', JStr ''B0PARENT01''), (''title'', JStr ''Mouse'')],
        [(''asin'', JStr ''B0OTHER002''), (''title'', JStr ''Other'')]])" .
  show "competitor_asins remdups ''B0PARENT01''
       [[(''asin'', JStr ''B0PARENT01''), (''title'', JStr ''Mouse'')],
        [(''asin'', JStr ''B0OTHER002''), (''title'', JStr ''Other'')]] = [JStr ''B0OTHER002'']"
    by (simp add: competitor_asins_def dict_get_def)
  show "map (\<lambda>r. (asin_of r, parent_of r)) (inserted (events (snd (fetch_and_store_competitors (\<lambda>v. []) remdups remdups
      (\<lambda>h p. if is_search_query p
        then Inr (JDict [(''results'', JList [JDict [(''content'',
               JDict [(''results'', JDict [(''organic'',
                 JList [JDict [(''asin'', JStr ''B0PARENT01''), (''title'', JStr ''Mouse'')],
                        JDict [(''asin'', JStr ''B0OTHER002''), (''title'', JStr ''Other'')]])])])]])])
        else Inr (JDict [(''content'', JDict [(''title'', JStr ''Mouse'')])]))
      ''B0PARENT01'' (JStr ''eg'') (JStr ''11511'') 1
      \<lparr>events = [], store = [[(''asin'', JStr ''B0PARENT01''), (''title'', JStr ''Mouse - wired''),
         (''categories'', JList [JStr ''Mice''])]]\<rparr>))))
       = [(JStr ''B0OTHER002'', JStr ''B0PARENT01'')]"
    by (simp add: fetch_and_store_competitors_def get_product_def candidate_categories_def
      categories_from_def py_str_def competitor_asins_def insert_product_def
      scrape_multiple_products_def scrape_product_details_def post_query_def emit_def
      pause_def product_payload_def search_payload_def refinements_def field_of_def
      is_search_query_def is_product_query_def dict_get_def dict_get_default_def
      extract_content_def results_first_content_def py_or_def normalize_product_def
      category_path_of_def search_competitors_def clean_title_of_def clean_search_title_def
      starts_with_def py_strip_def space1_def space2_def space3_def strategies_def extract_search_results_def
      extend_from_def normalize_search_result_def asin_of_def parent_of_def requested_asin_def
      category_refinement_def Let_def)
qed

text \<open>
  C2, as the claim words it, fails when the scraping API answers the product query for
  another ASIN with a content that reports the parent's ASIN (a listing that resolves to
  the parent): the only product query asks for \<open>B0OTHER002\<close>, and the record stored as a
  competitor of \<open>B0PARENT01\<close> has \<open>asin\<close> equal to \<open>B0PARENT01\<close>.
\<close>

theorem fetch_and_store_competitors_parent_asin_counterexample:
  "map requested_asin (filter is_product_query (posted (events (snd (fetch_and_store_competitors (\<lambda>v. []) remdups remdups
      (\<lambda>h p. if is_search_query p
        then Inr (JDict [(''results'', JList [JDict [(''content'',
               JDict [(''results'', JDict [(''organic'',
                 JList [JDict [(''asin'', JStr ''B0PARENT01''), (''title'', JStr ''Mouse'')],
                        JDict [(''asin'', JStr ''B0OTHER002''), (''title'', JStr ''Other'')]])])])]])])
        else Inr (JDict [(''content'', JDict [(''asin'', JStr ''B0PARENT01''), (''title'', JStr ''Mouse'')])]))
      ''B0PARENT01'' (JStr ''eg'') (JStr ''11511'') 1
      \<lparr>events = [], store = [[(''asin'', JStr ''B0PARENT01''), (''title'', JStr ''Mouse - wired''),
         (''categories'', JList [JStr ''Mice''])]]\<rparr>)))))
       = [JStr ''B0OTHER002'']
   \<and> map (\<lambda>r. (asin_of r, parent_of r)) (inserted (events (snd (fetch_and_store_competitors (\<lambda>v. []) remdups remdups
      (\<lambda>h p. if is_search_query p
        then Inr (JDict [(''results'', JList [JDict [(''content'',
               JDict [(''results'', JDict [(''organic'',
                 JList [JDict [(''asin'', JStr ''B0PARENT01''), (''title'', JStr ''Mouse'')],
                        JDict [(''asin'', JStr ''B0OTHER002''), (''title'', JStr ''Other'')]])])])]])])
        else Inr (JDict [(''content'', JDict [(''asin'', JStr ''B0PARENT01''), (''title'', JStr ''Mouse'')])]))
      ''B0PARENT01'' (JStr ''eg'') (JStr ''11511'') 1
      \<lparr>events = [], store = [[(''asin'', JStr ''B0PARENT01''), (''title'', JStr ''Mouse - wired''),
         (''categories'', JList [JStr ''Mice''])]]\<rparr>))))
       = [(JStr ''B0PARENT01'', JStr ''B0PARENT01'')]"
  by (simp add: fetch_and_store_competitors_def get_product_def candidate_categories_def
      categories_from_def py_str_def competitor_asins_def insert_product_def
      scrape_multiple_products_def scrape_product_details_def post_query_def emit_def
      pause_def product_payload_def search_payload_def refinements_def field_of_def
      is_search_query_def is_product_query_def dict_get_def dict_get_default_def
      extract_content_def results_first_content_def py_or_def normalize_product_def
      category_path_of_def search_competitors_def clean_title_of_def clean_search_title_def
      starts_with_def py_strip_def space1_def space2_def space3_def strategies_def extract_search_results_def
      extend_from_def normalize_search_result_def asin_of_def parent_of_def requested_asin_def
      category_refinement_def Let_def)

end
